theory Spec2Isabelle
  imports Complex_Main "HOL-Library.Word" "HOL-Library.Signed_Division"
begin

section \<open>ImagCDF mapping layer (imcdf.c, imcdf\_utils.c, imcdf\_low\_level.c)\<close>

text \<open>
  A shallow embedding of the C library that maps INTERMAGNET observatory data to and
  from a CDF container. C strings are \<open>string\<close> (a NUL-terminated buffer is the list
  of the characters before the NUL), a nullable \<open>char *\<close> is a \<open>string option\<close>,
  \<open>long long\<close> is \<open>64 word\<close>, \<open>int\<close> is \<open>32 word\<close> where its width matters, and
  \<open>long\<close> is 64 bits wide (the LP64 data model of the gcc/Unix build the Makefile
  describes). A function that returns an error message or null returns a sum whose
  left side is the error.
\<close>

subsection \<open>Characters and strings of the C library\<close>

text \<open>\<open>toupper\<close> and \<open>tolower\<close> of \<open>ctype.h\<close> in the C locale: only the 26 ASCII letters change.\<close>

definition toupper :: "char \<Rightarrow> char" where
  "toupper c = (let n = (of_char c :: nat) in if 97 \<le> n \<and> n \<le> 122 then char_of (n - 32) else c)"

definition tolower :: "char \<Rightarrow> char" where
  "tolower c = (let n = (of_char c :: nat) in if 65 \<le> n \<and> n \<le> 90 then char_of (n + 32) else c)"

text \<open>\<open>*s\<close> for a C string: its first character, the terminating NUL when it is empty.\<close>

definition first_char :: "string \<Rightarrow> char" where
  "first_char s = (case s of [] \<Rightarrow> CHR 0x00 | c # _ \<Rightarrow> c)"

text \<open>
  \<open>strcasecmp\<close> of \<open>strings.h\<close>: the difference of the first pair of characters
  that differ after lowercasing, 0 when there is none.
\<close>

fun strcasecmp :: "string \<Rightarrow> string \<Rightarrow> int" where
  "strcasecmp [] [] = 0"
| "strcasecmp [] (b # bs) = - int (of_char (tolower b))"
| "strcasecmp (a # as) [] = int (of_char (tolower a))"
| "strcasecmp (a # as) (b # bs) =
     (if tolower a = tolower b then strcasecmp as bs
      else int (of_char (tolower a)) - int (of_char (tolower b)))"

subsection \<open>Enumerations of imcdf.h\<close>

datatype IMCDFPubLevel = IMCDF_PUBLEVEL_1 | IMCDF_PUBLEVEL_2 | IMCDF_PUBLEVEL_3 | IMCDF_PUBLEVEL_4

datatype IMCDFStandardLevel = IMCDF_STANDLEVEL_FULL | IMCDF_STANDLEVEL_PARTIAL | IMCDF_STANDLEVEL_NONE

datatype IMCDFVariableType =
  IMCDF_VARTYPE_GEOMAGNETIC_FIELD_ELEMENT | IMCDF_VARTYPE_TEMPERATURE | IMCDF_VARTYPE_ERROR

subsection \<open>imcdf\_utils.c: enumerations and their stored strings\<close>

definition imcdf_parse_pub_level_string :: "string \<Rightarrow> IMCDFPubLevel" where
  "imcdf_parse_pub_level_string s =
     (if strcasecmp s ''1'' = 0 then IMCDF_PUBLEVEL_1
      else if strcasecmp s ''2'' = 0 then IMCDF_PUBLEVEL_2
      else if strcasecmp s ''3'' = 0 then IMCDF_PUBLEVEL_3
      else if strcasecmp s ''4'' = 0 then IMCDF_PUBLEVEL_4
      else IMCDF_PUBLEVEL_1)"


definition imcdf_parse_standard_level_string :: "string \<Rightarrow> IMCDFStandardLevel" where
  "imcdf_parse_standard_level_string s =
     (if strcasecmp s ''full'' = 0 then IMCDF_STANDLEVEL_FULL
      else if strcasecmp s ''partial'' = 0 then IMCDF_STANDLEVEL_PARTIAL
      else if strcasecmp s ''none'' = 0 then IMCDF_STANDLEVEL_NONE
      else IMCDF_STANDLEVEL_NONE)"

fun imcdf_standard_level_code_tostring :: "IMCDFStandardLevel \<Rightarrow> string" where
  "imcdf_standard_level_code_tostring IMCDF_STANDLEVEL_FULL = ''Full''"
| "imcdf_standard_level_code_tostring IMCDF_STANDLEVEL_PARTIAL = ''Partial''"
| "imcdf_standard_level_code_tostring IMCDF_STANDLEVEL_NONE = ''None''"

subsection \<open>Results, statuses and numbers\<close>

text \<open>
  What a function of imcdf.c hands back in place of its \<open>char *\<close> error message.
  \<open>Message m\<close> is the message \<open>m\<close>. \<open>Buffer_Overrun\<close> marks a run in which the source
  writes past the end of one of its fixed-size character arrays (\<open>sprintf\<close>, \<open>strcpy\<close>
  and \<open>strcat\<close> check no length), \<open>Null_Pointer\<close> one in which it reads a string
  through a null pointer; C leaves what follows undefined and the model stops there.
\<close>

datatype imcdf_error = Message string | Buffer_Overrun | Null_Pointer

text \<open>
  The status codes of the CDF library that the source names or that the library model
  below returns. cdf.h is not part of the repository, so the codes are kept symbolic;
  the source only compares a status with \<open>CDF_OK\<close>, \<open>CDF_WARN\<close>, zero and \<open>VAR_EXISTS\<close>.
  Every code but \<open>CDF_OK\<close> is an error code: negative and below \<open>CDF_WARN\<close>.
\<close>

datatype CDFstatus =
  CDF_OK | ATTR_EXISTS | NO_SUCH_ATTR | NO_SUCH_ENTRY | NO_SUCH_VAR | VAR_EXISTS
  | BAD_MALLOC | BAD_ARGUMENT | ILLEGAL_FOR_SCOPE

definition below_CDF_WARN :: "CDFstatus \<Rightarrow> bool" where
  "below_CDF_WARN st = (st \<noteq> CDF_OK)"

definition below_zero :: "CDFstatus \<Rightarrow> bool" where
  "below_zero st = (st \<noteq> CDF_OK)"

text \<open>
  A \<open>double\<close> that the source stores, passes on or takes from the CDF library is
  modelled by the rational number it holds, with exact arithmetic. The cast \<open>(int) d\<close>
  drops the fraction (rounds towards zero). The check of the format version, where the
  rounding of the arithmetic decides, has the binary64 arithmetic further down.
\<close>

type_synonym double = rat

definition int_of_double :: "double \<Rightarrow> int" where
  "int_of_double d = (if 0 \<le> d then \<lfloor>d\<rfloor> else \<lceil>d\<rceil>)"



subsection \<open>imcdf\_low\_level.c: the TT2000 time model\<close>

text \<open>
  The two calendar conversions belong to the CDF library and are parameters here:
  \<open>from_utc\<close> is \<open>CDF_TT2000_from_UTC_parts\<close> at whole seconds (milli-, micro- and
  nanoseconds 0), \<open>to_utc\<close> is \<open>CDF_TT2000_to_UTC_parts\<close> with the seconds as its last
  component (year, month, day, hour, minute, second). \<open>ILLEGAL_TT2000_VALUE\<close> is the
  library's marker for a date it rejects.
\<close>

type_synonym from_utc_parts = "int \<Rightarrow> int \<Rightarrow> int \<Rightarrow> int \<Rightarrow> int \<Rightarrow> int \<Rightarrow> 64 word"


definition ILLEGAL_TT2000_VALUE :: "64 word" where
  "ILLEGAL_TT2000_VALUE = - 9223372036854775805"

text \<open>The result is the return value, the value stored in \<open>*tt2000\<close> and the status assigned to \<open>cdf_status\<close>.\<close>

definition imcdf_date_time_to_tt2000 ::
  "from_utc_parts \<Rightarrow> int \<Rightarrow> int \<Rightarrow> int \<Rightarrow> int \<Rightarrow> int \<Rightarrow> int \<Rightarrow> int \<times> 64 word \<times> CDFstatus" where
  "imcdf_date_time_to_tt2000 from_utc year month day hour minute sec =
     (let tt2000 = from_utc year month day hour minute sec
      in if tt2000 = ILLEGAL_TT2000_VALUE then (- 1, tt2000, BAD_ARGUMENT)
         else (0, tt2000, CDF_OK))"


text \<open>
  \<open>(long long) inc * 1000000000ll\<close> cannot overflow; the addition to \<open>tt2000\<close> wraps
  around here where C leaves a signed overflow undefined.
\<close>

definition imcdf_tt2000_inc :: "64 word \<Rightarrow> 32 word \<Rightarrow> 64 word" where
  "imcdf_tt2000_inc tt2000 inc = tt2000 + (scast inc :: 64 word) * 1000000000"

text \<open>The loop of \<open>imcdf_make_tt2000_array\<close>, by the number of samples still to store.\<close>

fun fill_tt2000_array :: "nat \<Rightarrow> 64 word \<Rightarrow> 32 word \<Rightarrow> 64 word list" where
  "fill_tt2000_array 0 tt2000 increment = []"
| "fill_tt2000_array (Suc n) tt2000 increment =
     tt2000 # fill_tt2000_array n (imcdf_tt2000_inc tt2000 increment) increment"

text \<open>
  \<open>malloc_ok\<close> says whether the allocation succeeds. The result is the array (\<open>None\<close> for
  the null pointer) and the status left in \<open>cdf_status\<close>, given the status before.
\<close>

definition imcdf_make_tt2000_array ::
  "from_utc_parts \<Rightarrow> bool \<Rightarrow> CDFstatus \<Rightarrow> int \<Rightarrow> int \<Rightarrow> int \<Rightarrow> int \<Rightarrow> int \<Rightarrow> int \<Rightarrow> 32 word \<Rightarrow> int
     \<Rightarrow> 64 word list option \<times> CDFstatus" where
  "imcdf_make_tt2000_array from_utc malloc_ok status0 year month day hour minute sec increment n_samples =
     (if \<not> malloc_ok then (None, status0)
      else case imcdf_date_time_to_tt2000 from_utc year month day hour minute sec of
        (rc, tt2000, st) \<Rightarrow>
          if rc \<noteq> 0 then (None, st)
          else (Some (fill_tt2000_array (nat n_samples) tt2000 increment), st))"

text \<open>C's \<open>/\<close> on \<open>long\<close>: the quotient rounded towards zero.\<close>

definition long_div :: "64 word \<Rightarrow> 64 word \<Rightarrow> 64 word" where
  "long_div a b = word_of_int (sint a sdiv sint b)"

text \<open>
  Reads \<open>tt2000_array[0]\<close> and \<open>tt2000_array[1]\<close>; an array of fewer than two samples is
  read out of range, which is \<open>None\<close> here. \<open>(int)\<close> keeps the low 32 bits.
\<close>

fun imcdf_calc_samp_per_from_tt2000 :: "64 word list \<Rightarrow> 32 word option" where
  "imcdf_calc_samp_per_from_tt2000 (t0 # t1 # rest) =
     (let diff = (t1 - t0 :: 64 word) in Some (ucast (long_div diff 1000000000)))"
| "imcdf_calc_samp_per_from_tt2000 _ = None"

subsection \<open>imcdf.c: file names\<close>






subsection \<open>imcdf.c: classification of element codes\<close>

text \<open>
  The \<open>switch (toupper (*elem_rec))\<close> of both functions: the cases that return 1 are the
  listed letters, everything else falls through to \<open>return 0\<close>.
\<close>

definition imcdf_is_vector_gm_data :: "IMCDFVariableType \<Rightarrow> string \<Rightarrow> bool" where
  "imcdf_is_vector_gm_data var_type elem_rec =
     (if var_type \<noteq> IMCDF_VARTYPE_GEOMAGNETIC_FIELD_ELEMENT then False
      else let u = toupper (first_char elem_rec) in
        if u = CHR ''X'' \<or> u = CHR ''Y'' \<or> u = CHR ''Z'' \<or> u = CHR ''H'' \<or> u = CHR ''D''
           \<or> u = CHR ''E'' \<or> u = CHR ''V'' \<or> u = CHR ''I'' \<or> u = CHR ''F''
        then True else False)"

definition imcdf_is_scalar_gm_data :: "IMCDFVariableType \<Rightarrow> string \<Rightarrow> bool" where
  "imcdf_is_scalar_gm_data var_type elem_rec =
     (if var_type \<noteq> IMCDF_VARTYPE_GEOMAGNETIC_FIELD_ELEMENT then False
      else let u = toupper (first_char elem_rec) in
        if u = CHR ''S'' \<or> u = CHR ''G'' then True else False)"

text \<open>The two code tables of the data model, as the single-letter strings the specification lists.\<close>

definition vector_codes :: "string list" where
  "vector_codes = [''X'', ''Y'', ''Z'', ''H'', ''D'', ''E'', ''V'', ''I'', ''F'']"

definition scalar_codes :: "string list" where
  "scalar_codes = [''S'', ''G'']"

subsection \<open>The CDF library, as far as the source calls it\<close>

text \<open>
  The CDF library is not part of the repository. This is a model of the part of its
  documented behaviour that the modelled functions rely on. An attribute has a scope,
  numbered global entries and one entry per variable; a zVariable has a data type and
  its written records, numbered from 0. Attributes and variables are found by name: the
  numbers the library hands out for them only name them again, so the model uses the
  name as the number.
\<close>

datatype cdf_value = CDF_CHAR string | CDF_DOUBLE double | CDF_TIME_TT2000 "64 word"

datatype cdf_type = T_CDF_CHAR | T_CDF_DOUBLE | T_CDF_TIME_TT2000

fun data_type_of :: "cdf_value \<Rightarrow> cdf_type" where
  "data_type_of (CDF_CHAR s) = T_CDF_CHAR"
| "data_type_of (CDF_DOUBLE d) = T_CDF_DOUBLE"
| "data_type_of (CDF_TIME_TT2000 t) = T_CDF_TIME_TT2000"

fun num_elements_of :: "cdf_value \<Rightarrow> nat" where
  "num_elements_of (CDF_CHAR s) = length s"
| "num_elements_of _ = 1"

datatype cdf_scope = GLOBAL_SCOPE | VARIABLE_SCOPE

record cdf_attr =
  attr_scope :: cdf_scope
  g_entries :: "cdf_value option list"
  z_entries :: "string \<rightharpoonup> cdf_value"

record cdf_var =
  var_data_type :: cdf_type
  recs :: "cdf_value list"

record cdf_file =
  attrs :: "string \<rightharpoonup> cdf_attr"
  zvars :: "string \<rightharpoonup> cdf_var"

definition CDFattrNum :: "cdf_file \<Rightarrow> string \<Rightarrow> CDFstatus + string" where
  "CDFattrNum f name = (case attrs f name of None \<Rightarrow> Inl NO_SUCH_ATTR | Some a \<Rightarrow> Inr name)"

definition CDFcreateAttr :: "cdf_file \<Rightarrow> string \<Rightarrow> cdf_scope \<Rightarrow> CDFstatus \<times> cdf_file" where
  "CDFcreateAttr f name scope =
     (case attrs f name of
        Some a \<Rightarrow> (ATTR_EXISTS, f)
      | None \<Rightarrow> (CDF_OK, f\<lparr>attrs := (attrs f)(name \<mapsto>
                   \<lparr>attr_scope = scope, g_entries = [], z_entries = Map.empty\<rparr>)\<rparr>))"

definition g_entry :: "cdf_file \<Rightarrow> string \<Rightarrow> nat \<Rightarrow> cdf_value option" where
  "g_entry f attr_num entry_no =
     (case attrs f attr_num of
        None \<Rightarrow> None
      | Some a \<Rightarrow> if entry_no < length (g_entries a) then g_entries a ! entry_no else None)"

text \<open>The status, and the data type and number of elements when the entry exists.\<close>

definition CDFinquireAttrgEntry :: "cdf_file \<Rightarrow> string \<Rightarrow> nat \<Rightarrow> CDFstatus \<times> (cdf_type \<times> nat) option" where
  "CDFinquireAttrgEntry f attr_num entry_no =
     (case g_entry f attr_num entry_no of
        None \<Rightarrow> (NO_SUCH_ENTRY, None)
      | Some v \<Rightarrow> (CDF_OK, Some (data_type_of v, num_elements_of v)))"

definition CDFgetAttrgEntry :: "cdf_file \<Rightarrow> string \<Rightarrow> nat \<Rightarrow> CDFstatus \<times> cdf_value option" where
  "CDFgetAttrgEntry f attr_num entry_no =
     (case g_entry f attr_num entry_no of
        None \<Rightarrow> (NO_SUCH_ENTRY, None)
      | Some v \<Rightarrow> (CDF_OK, Some v))"

definition CDFgetVarNum :: "cdf_file \<Rightarrow> string \<Rightarrow> CDFstatus + string" where
  "CDFgetVarNum f name = (case zvars f name of None \<Rightarrow> Inl NO_SUCH_VAR | Some v \<Rightarrow> Inr name)"

definition CDFputAttrzEntry :: "cdf_file \<Rightarrow> string \<Rightarrow> string \<Rightarrow> cdf_value \<Rightarrow> CDFstatus \<times> cdf_file" where
  "CDFputAttrzEntry f attr_num var_num v =
     (case attrs f attr_num of
        None \<Rightarrow> (NO_SUCH_ATTR, f)
      | Some a \<Rightarrow>
          if attr_scope a \<noteq> VARIABLE_SCOPE then (ILLEGAL_FOR_SCOPE, f)
          else if zvars f var_num = None then (NO_SUCH_VAR, f)
          else (CDF_OK, f\<lparr>attrs := (attrs f)(attr_num \<mapsto> a\<lparr>z_entries := (z_entries a)(var_num \<mapsto> v)\<rparr>)\<rparr>))"

definition CDFcreatezVar :: "cdf_file \<Rightarrow> string \<Rightarrow> cdf_type \<Rightarrow> CDFstatus \<times> cdf_file" where
  "CDFcreatezVar f name data_type =
     (case zvars f name of
        Some v \<Rightarrow> (VAR_EXISTS, f)
      | None \<Rightarrow> (CDF_OK, f\<lparr>zvars := (zvars f)(name \<mapsto> \<lparr>var_data_type = data_type, recs = []\<rparr>)\<rparr>))"

text \<open>The highest record number written, -1 when no record has been written.\<close>

definition CDFgetzVarMaxWrittenRecNum :: "cdf_file \<Rightarrow> string \<Rightarrow> CDFstatus \<times> int" where
  "CDFgetzVarMaxWrittenRecNum f var_num =
     (case zvars f var_num of
        None \<Rightarrow> (NO_SUCH_VAR, 0)
      | Some v \<Rightarrow> (CDF_OK, int (length (recs v)) - 1))"

definition CDFgetzVarNumRecsWritten :: "cdf_file \<Rightarrow> string \<Rightarrow> CDFstatus \<times> int" where
  "CDFgetzVarNumRecsWritten f var_num =
     (case zvars f var_num of
        None \<Rightarrow> (NO_SUCH_VAR, 0)
      | Some v \<Rightarrow> (CDF_OK, int (length (recs v))))"

text \<open>
  The pad value the library stores in the records that a write beyond the last record
  skips (the variables are not sparse).
\<close>

fun pad_value :: "cdf_type \<Rightarrow> cdf_value" where
  "pad_value T_CDF_CHAR = CDF_CHAR '' ''"
| "pad_value T_CDF_DOUBLE = CDF_DOUBLE (- (10 ^ 30))"
| "pad_value T_CDF_TIME_TT2000 = CDF_TIME_TT2000 (- 9223372036854775807)"

definition put_rec :: "cdf_value list \<Rightarrow> nat \<Rightarrow> cdf_value \<Rightarrow> cdf_value \<Rightarrow> cdf_value list" where
  "put_rec rs r x pad =
     (if r < length rs then rs[r := x] else rs @ replicate (r - length rs) pad @ [x])"

definition CDFputzVarRecordData :: "cdf_file \<Rightarrow> string \<Rightarrow> nat \<Rightarrow> cdf_value \<Rightarrow> CDFstatus \<times> cdf_file" where
  "CDFputzVarRecordData f var_num rec_no x =
     (case zvars f var_num of
        None \<Rightarrow> (NO_SUCH_VAR, f)
      | Some v \<Rightarrow>
          (CDF_OK, f\<lparr>zvars := (zvars f)(var_num \<mapsto>
                     v\<lparr>recs := put_rec (recs v) rec_no x (pad_value (var_data_type v))\<rparr>)\<rparr>))"

definition CDFgetzVarRecordData :: "cdf_file \<Rightarrow> string \<Rightarrow> nat \<Rightarrow> CDFstatus \<times> cdf_value option" where
  "CDFgetzVarRecordData f var_num rec_no =
     (case zvars f var_num of
        None \<Rightarrow> (NO_SUCH_VAR, None)
      | Some v \<Rightarrow> if rec_no < length (recs v) then (CDF_OK, Some (recs v ! rec_no))
                  else (CDF_OK, Some (pad_value (var_data_type v))))"

text \<open>The status, and the data type and number of dimensions of the variable.\<close>

definition CDFinquirezVar :: "cdf_file \<Rightarrow> string \<Rightarrow> CDFstatus \<times> (cdf_type \<times> nat) option" where
  "CDFinquirezVar f var_num =
     (case zvars f var_num of
        None \<Rightarrow> (NO_SUCH_VAR, None)
      | Some v \<Rightarrow> (CDF_OK, Some (var_data_type v, 0)))"

subsection \<open>imcdf\_low\_level.c: the state and the handles\<close>

text \<open>
  The state that the functions share. \<open>cdf_ids\<close> holds the open CDFs
  \<open>cdf_ids [0 .. cdf_index - 1]\<close>, so \<open>cdf_index\<close> is its length; \<open>initialised\<close> is false
  while \<open>cdf_index\<close> still has its initial value -1. \<open>cdf_status\<close> is the global of that
  name. \<open>heap_ok\<close> says whether \<open>malloc\<close> and \<open>realloc\<close> succeed during the run, and
  \<open>status_text\<close> is the library's \<open>CDFgetStatusText\<close>.
\<close>

record world =
  cdf_ids :: "cdf_file list"
  initialised :: bool
  cdf_status :: CDFstatus
  heap_ok :: bool
  status_text :: "CDFstatus \<Rightarrow> string"

definition initialise_cdf_ids :: "world \<Rightarrow> world" where
  "initialise_cdf_ids w =
     (if \<not> initialised w then w\<lparr>cdf_ids := [], initialised := True, cdf_status := CDF_OK\<rparr> else w)"

definition sanity_check_handles :: "world \<Rightarrow> int \<Rightarrow> int \<times> world" where
  "sanity_check_handles w cdf_handle =
     (let w = initialise_cdf_ids w
      in if cdf_handle < 0 then (- 1, w)
         else if cdf_handle \<ge> int (length (cdf_ids w)) then (- 1, w)
         else (0, w))"

text \<open>\<open>cdf_ids [cdf_handle]\<close>, and the state after the library has changed that CDF.\<close>

definition cdf_of :: "world \<Rightarrow> int \<Rightarrow> cdf_file" where
  "cdf_of w cdf_handle = cdf_ids w ! nat cdf_handle"

definition set_cdf :: "world \<Rightarrow> int \<Rightarrow> cdf_file \<Rightarrow> world" where
  "set_cdf w cdf_handle f = w\<lparr>cdf_ids := (cdf_ids w)[nat cdf_handle := f]\<rparr>"

definition imcdf_get_last_status_code :: "world \<Rightarrow> CDFstatus" where
  "imcdf_get_last_status_code w = cdf_status w"

definition imcdf_status_code_tostring :: "world \<Rightarrow> CDFstatus \<Rightarrow> string" where
  "imcdf_status_code_tostring w status =
     (if below_CDF_WARN status then ''Error: '' @ status_text w status @ [CHR 0x0A]
      else ''Success'')"

subsection \<open>imcdf\_low\_level.c: reading global attributes\<close>

text \<open>
  The three readers return -1 or 0 and store the value through a pointer: \<open>None\<close> is
  the return value -1, \<open>Some v\<close> is 0 with \<open>v\<close> stored. The second component is the
  state afterwards.
\<close>

definition imcdf_get_global_attribute_string ::
  "world \<Rightarrow> int \<Rightarrow> string \<Rightarrow> nat \<Rightarrow> string option \<times> world" where
  "imcdf_get_global_attribute_string w cdf_handle name entry_no =
     (case sanity_check_handles w cdf_handle of (rc, w) \<Rightarrow>
        if rc \<noteq> 0 then (None, w)
        else case CDFattrNum (cdf_of w cdf_handle) name of
          Inl attr_num \<Rightarrow> (None, w\<lparr>cdf_status := attr_num\<rparr>)
        | Inr attr_num \<Rightarrow>
            (case CDFinquireAttrgEntry (cdf_of w cdf_handle) attr_num entry_no of (st, info) \<Rightarrow>
               let w = w\<lparr>cdf_status := st\<rparr>
               in if below_zero st then (None, w)
                  else case info of
                    None \<Rightarrow> (None, w)
                  | Some (data_type, num_elements) \<Rightarrow>
                      if data_type \<noteq> T_CDF_CHAR then (None, w)
                      else if \<not> heap_ok w then (None, w\<lparr>cdf_status := BAD_MALLOC\<rparr>)
                      else case CDFgetAttrgEntry (cdf_of w cdf_handle) attr_num entry_no of (st, v) \<Rightarrow>
                        let w = w\<lparr>cdf_status := st\<rparr>
                        in if below_zero st then (None, w)
                           else case v of Some (CDF_CHAR s) \<Rightarrow> (Some s, w) | _ \<Rightarrow> (None, w)))"

definition imcdf_get_global_attribute_double ::
  "world \<Rightarrow> int \<Rightarrow> string \<Rightarrow> nat \<Rightarrow> double option \<times> world" where
  "imcdf_get_global_attribute_double w cdf_handle name entry_no =
     (case sanity_check_handles w cdf_handle of (rc, w) \<Rightarrow>
        if rc \<noteq> 0 then (None, w)
        else case CDFattrNum (cdf_of w cdf_handle) name of
          Inl attr_num \<Rightarrow> (None, w\<lparr>cdf_status := attr_num\<rparr>)
        | Inr attr_num \<Rightarrow>
            (case CDFinquireAttrgEntry (cdf_of w cdf_handle) attr_num entry_no of (st, info) \<Rightarrow>
               let w = w\<lparr>cdf_status := st\<rparr>
               in if below_zero st then (None, w)
                  else case info of
                    None \<Rightarrow> (None, w)
                  | Some (data_type, num_elements) \<Rightarrow>
                      if data_type \<noteq> T_CDF_DOUBLE then (None, w)
                      else case CDFgetAttrgEntry (cdf_of w cdf_handle) attr_num entry_no of (st, v) \<Rightarrow>
                        let w = w\<lparr>cdf_status := st\<rparr>
                        in if below_zero st then (None, w)
                           else case v of Some (CDF_DOUBLE d) \<Rightarrow> (Some d, w) | _ \<Rightarrow> (None, w)))"

definition imcdf_get_global_attribute_tt2000 ::
  "world \<Rightarrow> int \<Rightarrow> string \<Rightarrow> nat \<Rightarrow> 64 word option \<times> world" where
  "imcdf_get_global_attribute_tt2000 w cdf_handle name entry_no =
     (case sanity_check_handles w cdf_handle of (rc, w) \<Rightarrow>
        if rc \<noteq> 0 then (None, w)
        else case CDFattrNum (cdf_of w cdf_handle) name of
          Inl attr_num \<Rightarrow> (None, w\<lparr>cdf_status := attr_num\<rparr>)
        | Inr attr_num \<Rightarrow>
            (case CDFinquireAttrgEntry (cdf_of w cdf_handle) attr_num entry_no of (st, info) \<Rightarrow>
               let w = w\<lparr>cdf_status := st\<rparr>
               in if below_zero st then (None, w)
                  else case info of
                    None \<Rightarrow> (None, w)
                  | Some (data_type, num_elements) \<Rightarrow>
                      if data_type \<noteq> T_CDF_TIME_TT2000 then (None, w)
                      else case CDFgetAttrgEntry (cdf_of w cdf_handle) attr_num entry_no of (st, v) \<Rightarrow>
                        let w = w\<lparr>cdf_status := st\<rparr>
                        in if below_zero st then (None, w)
                           else case v of Some (CDF_TIME_TT2000 t) \<Rightarrow> (Some t, w) | _ \<Rightarrow> (None, w)))"

subsection \<open>imcdf\_low\_level.c: writing variable attributes and record arrays\<close>

text \<open>\<open>None\<close> is the return value -1: the attribute neither exists nor can be created.\<close>

definition find_variable_attribute :: "world \<Rightarrow> int \<Rightarrow> string \<Rightarrow> string option \<times> world" where
  "find_variable_attribute w cdf_handle name =
     (case CDFattrNum (cdf_of w cdf_handle) name of
        Inr attr_num \<Rightarrow> (Some attr_num, w)
      | Inl err \<Rightarrow>
          (case CDFcreateAttr (cdf_of w cdf_handle) name VARIABLE_SCOPE of (st, f) \<Rightarrow>
             let w = (set_cdf w cdf_handle f)\<lparr>cdf_status := st\<rparr>
             in if below_CDF_WARN st then (None, w) else (Some name, w)))"

text \<open>The common body of \<open>imcdf_add_variable_attr_string\<close> and \<open>imcdf_add_variable_attr_double\<close>.\<close>

definition add_variable_attr :: "world \<Rightarrow> int \<Rightarrow> string \<Rightarrow> string \<Rightarrow> cdf_value \<Rightarrow> int \<times> world" where
  "add_variable_attr w cdf_handle attr_name var_name v =
     (case sanity_check_handles w cdf_handle of (rc, w) \<Rightarrow>
        if rc \<noteq> 0 then (- 1, w)
        else case find_variable_attribute w cdf_handle attr_name of (attr_num, w) \<Rightarrow>
          (case attr_num of
             None \<Rightarrow> (- 1, w)
           | Some attr_num \<Rightarrow>
               (case CDFgetVarNum (cdf_of w cdf_handle) var_name of
                  Inl var_num \<Rightarrow> (- 1, w\<lparr>cdf_status := var_num\<rparr>)
                | Inr var_num \<Rightarrow>
                    (case CDFputAttrzEntry (cdf_of w cdf_handle) attr_num var_num v of (st, f) \<Rightarrow>
                       let w = (set_cdf w cdf_handle f)\<lparr>cdf_status := st\<rparr>
                       in if below_CDF_WARN st then (- 1, w) else (0, w)))))"

definition imcdf_add_variable_attr_string :: "world \<Rightarrow> int \<Rightarrow> string \<Rightarrow> string \<Rightarrow> string \<Rightarrow> int \<times> world" where
  "imcdf_add_variable_attr_string w cdf_handle attr_name var_name s =
     add_variable_attr w cdf_handle attr_name var_name (CDF_CHAR s)"

definition imcdf_add_variable_attr_double :: "world \<Rightarrow> int \<Rightarrow> string \<Rightarrow> string \<Rightarrow> double \<Rightarrow> int \<times> world" where
  "imcdf_add_variable_attr_double w cdf_handle attr_name var_name d =
     add_variable_attr w cdf_handle attr_name var_name (CDF_DOUBLE d)"

text \<open>
  The loop of the two append functions: record \<open>count + n_recs\<close> receives
  \<open>data [count]\<close>; \<open>r\<close> is the number of the next record.
\<close>

fun put_records :: "world \<Rightarrow> int \<Rightarrow> string \<Rightarrow> nat \<Rightarrow> cdf_value list \<Rightarrow> int \<times> world" where
  "put_records w cdf_handle var_num r [] = (0, w)"
| "put_records w cdf_handle var_num r (x # xs) =
     (case CDFputzVarRecordData (cdf_of w cdf_handle) var_num r x of (st, f) \<Rightarrow>
        let w = (set_cdf w cdf_handle f)\<lparr>cdf_status := st\<rparr>
        in if below_CDF_WARN st then (- 1, w) else put_records w cdf_handle var_num (Suc r) xs)"

text \<open>
  The common body of \<open>imcdf_append_data_array\<close> and \<open>imcdf_append_time_stamp_array\<close>;
  \<open>xs\<close> holds \<open>data [0 .. data_length - 1]\<close>.
\<close>

definition append_array :: "world \<Rightarrow> int \<Rightarrow> string \<Rightarrow> cdf_value list \<Rightarrow> int \<times> world" where
  "append_array w cdf_handle name xs =
     (case sanity_check_handles w cdf_handle of (rc, w) \<Rightarrow>
        if rc \<noteq> 0 then (- 1, w)
        else case CDFgetVarNum (cdf_of w cdf_handle) name of
          Inl var_num \<Rightarrow> (- 1, w\<lparr>cdf_status := var_num\<rparr>)
        | Inr var_num \<Rightarrow>
            (case CDFgetzVarMaxWrittenRecNum (cdf_of w cdf_handle) var_num of (st, n_recs) \<Rightarrow>
               let w = w\<lparr>cdf_status := st\<rparr>
               in if st \<noteq> CDF_OK then (- 1, w)
                  else let n_recs = n_recs + 1
                       in put_records w cdf_handle var_num (nat n_recs) xs))"

definition imcdf_append_data_array :: "world \<Rightarrow> int \<Rightarrow> string \<Rightarrow> double list \<Rightarrow> int \<Rightarrow> int \<times> world" where
  "imcdf_append_data_array w cdf_handle name data data_length =
     append_array w cdf_handle name (map CDF_DOUBLE (take (nat data_length) data))"

definition imcdf_append_time_stamp_array :: "world \<Rightarrow> int \<Rightarrow> string \<Rightarrow> 64 word list \<Rightarrow> int \<Rightarrow> int \<times> world" where
  "imcdf_append_time_stamp_array w cdf_handle name data data_length =
     append_array w cdf_handle name (map CDF_TIME_TT2000 (take (nat data_length) data))"

definition imcdf_create_data_array :: "world \<Rightarrow> int \<Rightarrow> string \<Rightarrow> double list \<Rightarrow> int \<Rightarrow> int \<times> world" where
  "imcdf_create_data_array w cdf_handle name data data_length =
     (case sanity_check_handles w cdf_handle of (rc, w) \<Rightarrow>
        if rc \<noteq> 0 then (- 1, w)
        else case CDFcreatezVar (cdf_of w cdf_handle) name T_CDF_DOUBLE of (st, f) \<Rightarrow>
          let w = (set_cdf w cdf_handle f)\<lparr>cdf_status := st\<rparr>
          in if below_CDF_WARN st \<and> st \<noteq> VAR_EXISTS then (- 1, w)
             else imcdf_append_data_array w cdf_handle name data data_length)"

definition imcdf_create_time_stamp_array :: "world \<Rightarrow> int \<Rightarrow> string \<Rightarrow> 64 word list \<Rightarrow> int \<Rightarrow> int \<times> world" where
  "imcdf_create_time_stamp_array w cdf_handle name data data_length =
     (case sanity_check_handles w cdf_handle of (rc, w) \<Rightarrow>
        if rc \<noteq> 0 then (- 1, w)
        else case CDFcreatezVar (cdf_of w cdf_handle) name T_CDF_TIME_TT2000 of (st, f) \<Rightarrow>
          let w = (set_cdf w cdf_handle f)\<lparr>cdf_status := st\<rparr>
          in if below_CDF_WARN st \<and> st \<noteq> VAR_EXISTS then (- 1, w)
             else imcdf_append_time_stamp_array w cdf_handle name data data_length)"

subsection \<open>imcdf\_low\_level.c: reading a time stamp array\<close>

text \<open>The loop that reads records \<open>count .. data_len - 1\<close>; \<open>None\<close> when a read fails.\<close>

fun get_records :: "world \<Rightarrow> int \<Rightarrow> string \<Rightarrow> nat \<Rightarrow> nat \<Rightarrow> cdf_value list option \<times> world" where
  "get_records w cdf_handle var_num r 0 = (Some [], w)"
| "get_records w cdf_handle var_num r (Suc n) =
     (case CDFgetzVarRecordData (cdf_of w cdf_handle) var_num r of (st, v) \<Rightarrow>
        let w = w\<lparr>cdf_status := st\<rparr>
        in if below_zero st then (None, w)
           else case v of
             None \<Rightarrow> (None, w)
           | Some x \<Rightarrow>
               (case get_records w cdf_handle var_num (Suc r) n of
                  (None, w) \<Rightarrow> (None, w)
                | (Some xs, w) \<Rightarrow> (Some (x # xs), w)))"

text \<open>The array and \<open>*data_len\<close>; \<open>None\<close> is the null pointer.\<close>

definition imcdf_get_var_time_stamps ::
  "world \<Rightarrow> int \<Rightarrow> string \<Rightarrow> (64 word list \<times> int) option \<times> world" where
  "imcdf_get_var_time_stamps w cdf_handle var_name =
     (case sanity_check_handles w cdf_handle of (rc, w) \<Rightarrow>
        if rc \<noteq> 0 then (None, w)
        else case CDFgetVarNum (cdf_of w cdf_handle) var_name of
          Inl err \<Rightarrow> (None, w)
        | Inr var_num \<Rightarrow>
            (case CDFinquirezVar (cdf_of w cdf_handle) var_num of (st, info) \<Rightarrow>
               let w = w\<lparr>cdf_status := st\<rparr>
               in if below_zero st then (None, w)
                  else case info of
                    None \<Rightarrow> (None, w)
                  | Some (data_type, num_dims) \<Rightarrow>
                      if data_type \<noteq> T_CDF_TIME_TT2000 then (None, w)
                      else if num_dims \<noteq> 0 then (None, w)
                      else case CDFgetzVarNumRecsWritten (cdf_of w cdf_handle) var_num of (st, data_len) \<Rightarrow>
                        let w = w\<lparr>cdf_status := st\<rparr>
                        in if st \<noteq> CDF_OK then (None, w)
                           else if \<not> heap_ok w then (None, w\<lparr>cdf_status := BAD_MALLOC\<rparr>)
                           else case get_records w cdf_handle var_num 0 (nat data_len) of
                             (None, w) \<Rightarrow> (None, w)
                           | (Some vs, w) \<Rightarrow>
                               (Some (map (\<lambda>v. case v of CDF_TIME_TT2000 t \<Rightarrow> t | _ \<Rightarrow> 0) vs, data_len), w)))"

subsection \<open>imcdf.c: error messages\<close>

text \<open>
  \<open>format_error_message\<close> builds the message in a static \<open>char [200]\<close>. Its third
  argument only decides whether the status text is added; the text is that of the last
  status.
\<close>

definition format_error_message :: "world \<Rightarrow> string \<Rightarrow> string option \<Rightarrow> CDFstatus \<Rightarrow> imcdf_error" where
  "format_error_message w msg param status =
     (let buffer = msg
            @ (case param of None \<Rightarrow> '''' | Some p \<Rightarrow> '': '' @ p)
            @ (if status \<noteq> CDF_OK
               then '' [CDF error: ]'' @ imcdf_status_code_tostring w (imcdf_get_last_status_code w)
               else '''')
      in if 200 \<le> length buffer then Buffer_Overrun else Message buffer)"

subsection \<open>The \<open>double\<close> arithmetic of the format version check\<close>

text \<open>
  \<open>imcdf_read_global_attrs\<close> multiplies and adds in \<open>double\<close> and casts the sum to \<open>int\<close>.
  There a \<open>double\<close> is a value of the IEEE 754 binary64 format: a rational with a
  significand of at most 53 bits and a least bit between \<open>2^-1074\<close> and \<open>2^971\<close>, an
  infinity or a NaN. The sign of a zero is not kept: nothing below tells the two zeros
  apart. Each operation rounds its exact result once, to the nearest value of the format
  and to the even significand when two are equally near: the arithmetic of a platform
  that evaluates \<open>double\<close> expressions in \<open>double\<close>, in the default rounding mode and
  without fusing the multiplication and the addition.
\<close>

datatype ieee_double = Finite rat | Plus_Infinity | Minus_Infinity | NaN

text \<open>The number of binary digits of a positive integer, and the powers of two.\<close>

function bit_length :: "int \<Rightarrow> int" where
  "bit_length n = (if n \<le> 0 then 0 else 1 + bit_length (n div 2))"
  by pat_completeness auto
termination
  by (relation "measure nat") auto

declare bit_length.simps [simp del]

definition pow2 :: "int \<Rightarrow> rat" where
  "pow2 k = (if 0 \<le> k then 2 ^ nat k else 1 / 2 ^ nat (- k))"

text \<open>
  The exponent \<open>e\<close> with \<open>2^e \<le> x < 2^(e + 1)\<close> of a positive rational: the difference \<open>k\<close>
  of the bit lengths of numerator and denominator has \<open>2^(k - 1) < x < 2^(k + 1)\<close>.
\<close>

definition floor_log2 :: "rat \<Rightarrow> int" where
  "floor_log2 x =
     (case quotient_of x of (p, q) \<Rightarrow>
        let k = bit_length p - bit_length q
        in if pow2 k \<le> x then k else k - 1)"

definition round_half_even :: "rat \<Rightarrow> int" where
  "round_half_even m =
     (let f = \<lfloor>m\<rfloor>; r = m - of_int f
      in if r < 1 / 2 then f else if 1 / 2 < r then f + 1 else if even f then f else f + 1)"

text \<open>
  The \<open>double\<close> nearest to a rational: \<open>t\<close> is the exponent of the least bit of the
  significand \<open>n\<close>, \<open>-1074\<close> at least (the subnormal numbers). What rounds to \<open>2^1024\<close> or
  beyond is an infinity: \<open>n * 2^t\<close> reaches \<open>2^1024\<close> when \<open>t\<close> and the bit length of \<open>n\<close>
  add up to more than 1024.
\<close>

definition round_to_double :: "rat \<Rightarrow> ieee_double" where
  "round_to_double x =
     (if x = 0 then Finite 0
      else
        let a = \<bar>x\<bar>;
            t = max (floor_log2 a - 52) (- 1074);
            n = round_half_even (a / pow2 t)
        in if 1024 < t + bit_length n then (if 0 < x then Plus_Infinity else Minus_Infinity)
           else Finite (if 0 < x then of_int n * pow2 t else - (of_int n * pow2 t)))"

text \<open>The sign of a value: 1, -1, and 0 for a zero or a NaN.\<close>

fun sign_of :: "ieee_double \<Rightarrow> int" where
  "sign_of (Finite a) = (if 0 < a then 1 else if a < 0 then - 1 else 0)"
| "sign_of Plus_Infinity = 1"
| "sign_of Minus_Infinity = - 1"
| "sign_of NaN = 0"

text \<open>
  The operators \<open>*\<close> and \<open>+\<close> on \<open>double\<close>. An infinity times zero and the sum of the two
  infinities are NaN.
\<close>

definition double_mult :: "ieee_double \<Rightarrow> ieee_double \<Rightarrow> ieee_double" where
  "double_mult x y =
     (case (x, y) of
        (Finite a, Finite b) \<Rightarrow> round_to_double (a * b)
      | _ \<Rightarrow>
          if x = NaN \<or> y = NaN \<or> sign_of x * sign_of y = 0 then NaN
          else if 0 < sign_of x * sign_of y then Plus_Infinity
          else Minus_Infinity)"

definition double_add :: "ieee_double \<Rightarrow> ieee_double \<Rightarrow> ieee_double" where
  "double_add x y =
     (case (x, y) of
        (Finite a, Finite b) \<Rightarrow> round_to_double (a + b)
      | (Finite a, _) \<Rightarrow> y
      | (_, Finite b) \<Rightarrow> x
      | _ \<Rightarrow> if x = y then x else NaN)"

text \<open>
  The cast \<open>(int) d\<close> to the 32-bit \<open>int\<close>: the fraction is dropped. When no \<open>int\<close> holds
  the integral part, or the value is an infinity or a NaN, an implementation of this
  arithmetic (Annex F of the C standard) raises the invalid exception and the result is
  an unspecified value: \<open>invalid\<close> gives the \<open>int\<close> that the platform returns then.
\<close>

definition int_of_ieee_double :: "(ieee_double \<Rightarrow> int) \<Rightarrow> ieee_double \<Rightarrow> int" where
  "int_of_ieee_double invalid d =
     (case d of
        Finite a \<Rightarrow>
          let n = int_of_double a
          in if - 2147483648 \<le> n \<and> n \<le> 2147483647 then n else invalid d
      | _ \<Rightarrow> invalid d)"

text \<open>
  What the repository takes from the C implementation in this check: \<open>strtod\<close> of the C
  library, as the \<open>double\<close> it returns for a string, and the value of a cast that the
  standard leaves unspecified. Both are parameters of the functions below.
\<close>

record c_platform =
  strtod :: "string \<Rightarrow> ieee_double"
  int_of_invalid :: "ieee_double \<Rightarrow> int"

subsection \<open>imcdf.c: variable names\<close>

text \<open>
  \<open>sprintf\<close> or \<open>strcpy\<close> of the string \<open>s\<close> into a character array of the given size:
  \<open>s\<close> and its terminating NUL must fit.
\<close>

definition sprintf_into :: "nat \<Rightarrow> string \<Rightarrow> imcdf_error + string" where
  "sprintf_into n s = (if n \<le> length s then Inl Buffer_Overrun else Inr s)"

text \<open>
  The name is built in a static \<open>char [30]\<close>; \<open>Inr None\<close> is the null pointer of the
  \<open>default\<close> branch. The callers copy the name into a \<open>char [30]\<close> of their own.
\<close>

fun create_var_name :: "IMCDFVariableType \<Rightarrow> string \<Rightarrow> imcdf_error + string option" where
  "create_var_name IMCDF_VARTYPE_GEOMAGNETIC_FIELD_ELEMENT elem_rec =
     (case sprintf_into 30 (''GeomagneticField'' @ elem_rec) of
        Inl e \<Rightarrow> Inl e | Inr var_name \<Rightarrow> Inr (Some var_name))"
| "create_var_name IMCDF_VARTYPE_TEMPERATURE elem_rec =
     (case sprintf_into 30 (''Temperature'' @ elem_rec) of
        Inl e \<Rightarrow> Inl e | Inr var_name \<Rightarrow> Inr (Some var_name))"
| "create_var_name _ elem_rec = Inr None"

subsection \<open>Structures of imcdf.h\<close>

text \<open>A \<open>char *\<close> field is \<open>None\<close> when it is null; a \<open>char **\<close> with its count is a list.\<close>

record IMCDFGlobalAttr =
  format_description :: "string option"
  format_version :: "string option"
  title :: "string option"
  iaga_code :: "string option"
  elements_recorded :: "string option"
  pub_level :: IMCDFPubLevel
  pub_date :: "64 word"
  observatory_name :: "string option"
  latitude :: double
  longitude :: double
  elevation :: double
  institution :: "string option"
  vector_sens_orient :: "string option"
  standard_level :: IMCDFStandardLevel
  standard_name :: "string option"
  standard_version :: "string option"
  partial_stand_desc :: "string option"
  source :: "string option"
  terms_of_use :: "string option"
  unique_identifier :: "string option"
  parent_identifiers :: "string list"
  n_parent_identifiers :: int
  reference_links :: "string list"
  n_reference_links :: int

record IMCDFVariableTS =
  ts_var_name :: string
  time_stamps :: "64 word list"
  ts_data_len :: int

text \<open>\<open>elem_rec\<close> is a \<open>char [10]\<close>: it holds a code of at most 9 characters.\<close>

record IMCDFVariable =
  var_type :: IMCDFVariableType
  elem_rec :: string
  field_nam :: "string option"
  units :: "string option"
  fill_val :: double
  valid_min :: double
  valid_max :: double
  depend_0 :: "string option"
  data :: "double list"
  data_len :: int

definition VECTOR_TIME_STAMPS_VAR_NAME :: string where
  "VECTOR_TIME_STAMPS_VAR_NAME = ''GeomagneticVectorTimes''"

definition SCALAR_TIME_STAMPS_VAR_NAME :: string where
  "SCALAR_TIME_STAMPS_VAR_NAME = ''GeomagneticScalarTimes''"

text \<open>\<open>sprintf (buf, TEMPERATURE_TIME_STAMPS_VAR_NAME_BASE, s)\<close> with the base \<open>Temperature%sTimes\<close>.\<close>

definition TEMPERATURE_TIME_STAMPS_VAR_NAME :: "string \<Rightarrow> string" where
  "TEMPERATURE_TIME_STAMPS_VAR_NAME s = ''Temperature'' @ s @ ''Times''"

subsection \<open>imcdf.c: reading the global attributes\<close>

text \<open>
  One \<open>if (imcdf_get_global_attribute_... (...)) return format_error_message (...)\<close> of
  \<open>imcdf_read_global_attrs\<close>: the read \<open>get\<close>, the attribute name for the message, and
  the rest of the function, which receives the value read.
\<close>

definition required_attr ::
  "(world \<Rightarrow> 'a option \<times> world) \<Rightarrow> string \<Rightarrow> ('a \<Rightarrow> world \<Rightarrow> (imcdf_error + 'b) \<times> world)
     \<Rightarrow> world \<Rightarrow> (imcdf_error + 'b) \<times> world" where
  "required_attr get name rest w =
     (case get w of
        (None, w) \<Rightarrow>
          (Inl (format_error_message w ''Error reading global attribute'' (Some name)
                  (imcdf_get_last_status_code w)), w)
      | (Some v, w) \<Rightarrow> rest v w)"

text \<open>
  One \<open>if (imcdf_get_global_attribute_string (..., &field)) field = 0\<close>: the field is
  null when the read fails.
\<close>

definition optional_attr ::
  "(world \<Rightarrow> string option \<times> world) \<Rightarrow> (string option \<Rightarrow> world \<Rightarrow> (imcdf_error + 'b) \<times> world)
     \<Rightarrow> world \<Rightarrow> (imcdf_error + 'b) \<times> world" where
  "optional_attr get rest w = (case get w of (field, w) \<Rightarrow> rest field w)"

text \<open>The number of global entries that the attribute has room for in the open CDF.\<close>

definition entries_bound :: "world \<Rightarrow> int \<Rightarrow> string \<Rightarrow> nat" where
  "entries_bound w cdf_handle name =
     (case attrs (cdf_of (initialise_cdf_ids w) cdf_handle) name of
        None \<Rightarrow> 0
      | Some a \<Rightarrow> length (g_entries a))"

lemma get_string_found:
  assumes "imcdf_get_global_attribute_string w cdf_handle name n = (Some s, w')"
  shows "n < entries_bound w cdf_handle name"
    and "entries_bound w' cdf_handle name = entries_bound w cdf_handle name"
  using assms
  by (auto simp: imcdf_get_global_attribute_string_def sanity_check_handles_def Let_def
      CDFattrNum_def CDFinquireAttrgEntry_def CDFgetAttrgEntry_def g_entry_def entries_bound_def
      initialise_cdf_ids_def cdf_of_def below_zero_def
      split: if_splits option.splits sum.splits prod.splits cdf_value.splits)

lemma probe_measure:
  assumes "(Some s, w') = imcdf_get_global_attribute_string w cdf_handle name n"
  shows "entries_bound w' cdf_handle name - Suc n < entries_bound w cdf_handle name - n"
  using get_string_found [OF assms [symmetric]] by simp

text \<open>
  The loops \<open>for (found=1; found; )\<close> over the entries of ParentIdentifiers and of
  ReferenceLinks: entry \<open>n\<close> is read next, \<open>acc\<close> holds the strings found so far.
\<close>

function probe_entries ::
  "world \<Rightarrow> int \<Rightarrow> string \<Rightarrow> nat \<Rightarrow> string list \<Rightarrow> (imcdf_error + string list) \<times> world" where
  "probe_entries w cdf_handle name n acc =
     (case imcdf_get_global_attribute_string w cdf_handle name n of
        (Some str, w') \<Rightarrow>
          if \<not> heap_ok w'
          then (Inl (format_error_message w' ''Error allocating memory'' (Some name) CDF_OK), w')
          else probe_entries w' cdf_handle name (Suc n) (acc @ [str])
      | (None, w') \<Rightarrow> (Inr acc, w'))"
  by pat_completeness auto
termination
  by (relation "measure (\<lambda>(w, cdf_handle, name, n, acc). entries_bound w cdf_handle name - n)")
    (simp_all add: probe_measure)

text \<open>
  The part of \<open>imcdf_read_global_attrs\<close> after its comment \<open>check metadata\<close>: the
  message it returns, \<open>None\<close> when the three checks pass. \<open>c\<close> is the C implementation:
  \<open>strtod c\<close> is the \<open>strtod\<close> of its library.
\<close>

definition check_metadata ::
  "c_platform \<Rightarrow> world \<Rightarrow> IMCDFGlobalAttr \<Rightarrow> imcdf_error option" where
  "check_metadata c w global_attrs =
     (case (title global_attrs, format_description global_attrs, format_version global_attrs) of
        (Some t, Some d, Some v) \<Rightarrow>
          if strcasecmp t ''Geomagnetic time series data'' \<noteq> 0
          then Some (format_error_message w ''Title of data incorrect'' (Some t) CDF_OK)
          else if strcasecmp d ''INTERMAGNET CDF Format'' \<noteq> 0
          then Some (format_error_message w ''Description of data incorrect'' (Some d) CDF_OK)
          else
            let imcdf_version =
                  int_of_ieee_double (int_of_invalid c)
                    (double_add (double_mult (strtod c v) (Finite 10)) (Finite (1 / 2)))
            in if imcdf_version < 11 \<or> imcdf_version > 13
               then Some (format_error_message w ''Format incorrect'' (Some v) CDF_OK)
               else None
      | _ \<Rightarrow> Some Null_Pointer)"

definition imcdf_read_global_attrs ::
  "c_platform \<Rightarrow> world \<Rightarrow> int \<Rightarrow> (imcdf_error + IMCDFGlobalAttr) \<times> world" where
  "imcdf_read_global_attrs c w cdf_handle =
     required_attr (\<lambda>w. imcdf_get_global_attribute_string w cdf_handle ''FormatDescription'' 0) ''FormatDescription'' (\<lambda>fd.
     required_attr (\<lambda>w. imcdf_get_global_attribute_string w cdf_handle ''FormatVersion'' 0) ''FormatVersion'' (\<lambda>fv.
     required_attr (\<lambda>w. imcdf_get_global_attribute_string w cdf_handle ''Title'' 0) ''Title'' (\<lambda>ti.
     required_attr (\<lambda>w. imcdf_get_global_attribute_string w cdf_handle ''IagaCode'' 0) ''IagaCode'' (\<lambda>ic.
     required_attr (\<lambda>w. imcdf_get_global_attribute_string w cdf_handle ''ElementsRecorded'' 0) ''ElementsRecorded'' (\<lambda>er.
     required_attr (\<lambda>w. imcdf_get_global_attribute_string w cdf_handle ''PublicationLevel'' 0) ''PublicationLevel'' (\<lambda>pl_str.
     required_attr (\<lambda>w. imcdf_get_global_attribute_tt2000 w cdf_handle ''PublicationDate'' 0) ''PublicationDate'' (\<lambda>pd.
     required_attr (\<lambda>w. imcdf_get_global_attribute_string w cdf_handle ''ObservatoryName'' 0) ''ObservatoryName'' (\<lambda>on.
     required_attr (\<lambda>w. imcdf_get_global_attribute_double w cdf_handle ''Latitude'' 0) ''Latitude'' (\<lambda>la.
     required_attr (\<lambda>w. imcdf_get_global_attribute_double w cdf_handle ''Longitude'' 0) ''Longitude'' (\<lambda>lo.
     required_attr (\<lambda>w. imcdf_get_global_attribute_double w cdf_handle ''Elevation'' 0) ''Elevation'' (\<lambda>el.
     required_attr (\<lambda>w. imcdf_get_global_attribute_string w cdf_handle ''Institution'' 0) ''Institution'' (\<lambda>ins.
     optional_attr (\<lambda>w. imcdf_get_global_attribute_string w cdf_handle ''VectorSensOrient'' 0) (\<lambda>vso.
     required_attr (\<lambda>w. imcdf_get_global_attribute_string w cdf_handle ''StandardLevel'' 0) ''StandardLevel'' (\<lambda>sl_str.
     optional_attr (\<lambda>w. imcdf_get_global_attribute_string w cdf_handle ''StandardName'' 0) (\<lambda>sn.
     optional_attr (\<lambda>w. imcdf_get_global_attribute_string w cdf_handle ''StandardVersion'' 0) (\<lambda>sv.
     optional_attr (\<lambda>w. imcdf_get_global_attribute_string w cdf_handle ''PartialStandDesc'' 0) (\<lambda>psd.
     required_attr (\<lambda>w. imcdf_get_global_attribute_string w cdf_handle ''Source'' 0) ''Source'' (\<lambda>src.
     optional_attr (\<lambda>w. imcdf_get_global_attribute_string w cdf_handle ''TermsOfUse'' 0) (\<lambda>tou.
     optional_attr (\<lambda>w. imcdf_get_global_attribute_string w cdf_handle ''UniqueIdentifier'' 0) (\<lambda>uid w.
       case probe_entries w cdf_handle ''ParentIdentifiers'' 0 [] of
         (Inl e, w) \<Rightarrow> (Inl e, w)
       | (Inr pis, w) \<Rightarrow>
           (case probe_entries w cdf_handle ''ReferenceLinks'' 0 [] of
              (Inl e, w) \<Rightarrow> (Inl e, w)
            | (Inr rls, w) \<Rightarrow>
                let global_attrs =
                  \<lparr>format_description = Some fd, format_version = Some fv, title = Some ti,
                   iaga_code = Some ic, elements_recorded = Some er,
                   pub_level = imcdf_parse_pub_level_string pl_str, pub_date = pd,
                   observatory_name = Some on, latitude = la, longitude = lo, elevation = el,
                   institution = Some ins, vector_sens_orient = vso,
                   standard_level = imcdf_parse_standard_level_string sl_str,
                   standard_name = sn, standard_version = sv, partial_stand_desc = psd,
                   source = Some src, terms_of_use = tou, unique_identifier = uid,
                   parent_identifiers = pis, n_parent_identifiers = int (length pis),
                   reference_links = rls, n_reference_links = int (length rls)\<rparr>
                in case check_metadata c w global_attrs of
                     Some e \<Rightarrow> (Inl e, w)
                   | None \<Rightarrow> (Inr global_attrs, w)))))))))))))))))))))) w"

subsection \<open>imcdf.c: writing a variable and its time stamps\<close>

text \<open>
  One \<open>if (imcdf_add_variable_attr_... (...)) return format_error_message (...)\<close> of
  \<open>imcdf_write_variable\<close>; \<open>None\<close> is the null pointer that reports success.
\<close>

definition variable_attr ::
  "(world \<Rightarrow> int \<times> world) \<Rightarrow> string \<Rightarrow> (world \<Rightarrow> imcdf_error option \<times> world)
     \<Rightarrow> world \<Rightarrow> imcdf_error option \<times> world" where
  "variable_attr put name rest w =
     (case put w of (rc, w) \<Rightarrow>
        if rc \<noteq> 0
        then (Some (format_error_message w ''Error writing variable attribute'' (Some name)
                      (imcdf_get_last_status_code w)), w)
        else rest w)"

text \<open>The same for a string that the caller's structure holds: \<open>strlen\<close> of a null pointer is undefined.\<close>

definition variable_attr_string ::
  "int \<Rightarrow> string \<Rightarrow> string \<Rightarrow> string option \<Rightarrow> (world \<Rightarrow> imcdf_error option \<times> world)
     \<Rightarrow> world \<Rightarrow> imcdf_error option \<times> world" where
  "variable_attr_string cdf_handle name var_name s rest w =
     (case s of
        None \<Rightarrow> (Some Null_Pointer, w)
      | Some v \<Rightarrow>
          variable_attr (\<lambda>w. imcdf_add_variable_attr_string w cdf_handle name var_name v) name rest w)"

text \<open>
  The value of the local \<open>depend_0\<close>, a \<open>char [50]\<close>, after the \<open>if (use_given_depend_0)\<close>
  statement, or the error that statement returns.
\<close>

definition derive_depend_0 :: "world \<Rightarrow> IMCDFVariable \<Rightarrow> bool \<Rightarrow> imcdf_error + string" where
  "derive_depend_0 w variable use_given_depend_0 =
     (if use_given_depend_0
      then (case depend_0 variable of
              None \<Rightarrow> Inl Null_Pointer
            | Some d \<Rightarrow> sprintf_into 50 d)
      else if imcdf_is_vector_gm_data (var_type variable) (elem_rec variable)
      then sprintf_into 50 VECTOR_TIME_STAMPS_VAR_NAME
      else if imcdf_is_scalar_gm_data (var_type variable) (elem_rec variable)
      then sprintf_into 50 SCALAR_TIME_STAMPS_VAR_NAME
      else if var_type variable \<noteq> IMCDF_VARTYPE_TEMPERATURE
      then Inl (format_error_message w ''Missing or invalid element code'' None CDF_OK)
      else sprintf_into 50 (TEMPERATURE_TIME_STAMPS_VAR_NAME (elem_rec variable)))"

text \<open>The local \<open>lablaxis\<close>, a \<open>char [30]\<close>.\<close>

definition make_lablaxis :: "IMCDFVariable \<Rightarrow> imcdf_error + string" where
  "make_lablaxis variable =
     (if var_type variable = IMCDF_VARTYPE_TEMPERATURE
      then sprintf_into 30 (''Temperature '' @ elem_rec variable)
      else sprintf_into 30 (elem_rec variable))"

text \<open>The eight attribute writes at the end of \<open>imcdf_write_variable\<close>, in their order.\<close>

definition write_metadata ::
  "int \<Rightarrow> IMCDFVariable \<Rightarrow> string \<Rightarrow> string \<Rightarrow> string \<Rightarrow> world \<Rightarrow> imcdf_error option \<times> world" where
  "write_metadata cdf_handle variable var_name dep lablaxis =
     variable_attr_string cdf_handle ''FIELDNAM'' var_name (field_nam variable) (
     variable_attr_string cdf_handle ''UNITS'' var_name (units variable) (
     variable_attr (\<lambda>w. imcdf_add_variable_attr_double w cdf_handle ''FILLVAL'' var_name (fill_val variable)) ''FILLVAL'' (
     variable_attr (\<lambda>w. imcdf_add_variable_attr_double w cdf_handle ''VALIDMIN'' var_name (valid_min variable)) ''VALIDMIN'' (
     variable_attr (\<lambda>w. imcdf_add_variable_attr_double w cdf_handle ''VALIDMAX'' var_name (valid_max variable)) ''VALIDMAX'' (
     variable_attr (\<lambda>w. imcdf_add_variable_attr_string w cdf_handle ''DEPEND_0'' var_name dep) ''DEPEND_0'' (
     variable_attr (\<lambda>w. imcdf_add_variable_attr_string w cdf_handle ''DISPLAY_TYPE'' var_name ''time_series'') ''DISPLAY_TYPE'' (
     variable_attr (\<lambda>w. imcdf_add_variable_attr_string w cdf_handle ''LABLAXIS'' var_name lablaxis) ''LABLAXIS'' (
     \<lambda>w. (None, w)))))))))"

definition imcdf_write_variable :: "world \<Rightarrow> int \<Rightarrow> IMCDFVariable \<Rightarrow> bool \<Rightarrow> imcdf_error option \<times> world" where
  "imcdf_write_variable w cdf_handle variable use_given_depend_0 =
     (case create_var_name (var_type variable) (elem_rec variable) of
        Inl e \<Rightarrow> (Some e, w)
      | Inr None \<Rightarrow> (Some (format_error_message w ''Invalid variable type'' None CDF_OK), w)
      | Inr (Some var_name) \<Rightarrow>
          (case imcdf_create_data_array w cdf_handle var_name (data variable) (data_len variable) of
             (rc, w) \<Rightarrow>
               if rc \<noteq> 0
               then (Some (format_error_message w ''Error writing variable data'' (Some var_name) CDF_OK), w)
               else case derive_depend_0 w variable use_given_depend_0 of
                 Inl e \<Rightarrow> (Some e, w)
               | Inr dep \<Rightarrow>
                   (case make_lablaxis variable of
                      Inl e \<Rightarrow> (Some e, w)
                    | Inr lablaxis \<Rightarrow> write_metadata cdf_handle variable var_name dep lablaxis w)))"

definition imcdf_write_time_stamps :: "world \<Rightarrow> int \<Rightarrow> IMCDFVariableTS \<Rightarrow> imcdf_error option \<times> world" where
  "imcdf_write_time_stamps w cdf_handle ts =
     (case imcdf_create_time_stamp_array w cdf_handle (ts_var_name ts) (time_stamps ts) (ts_data_len ts) of
        (rc, w) \<Rightarrow>
          if rc \<noteq> 0
          then (Some (format_error_message w ''Error writing time stamp data'' (Some (ts_var_name ts)) CDF_OK), w)
          else (None, w))"

definition imcdf_read_time_stamps :: "world \<Rightarrow> int \<Rightarrow> string \<Rightarrow> (imcdf_error + IMCDFVariableTS) \<times> world" where
  "imcdf_read_time_stamps w cdf_handle var_name =
     (case imcdf_get_var_time_stamps w cdf_handle var_name of
        (None, w) \<Rightarrow>
          (Inl (format_error_message w ''Error reading time stamps'' (Some var_name)
                  (imcdf_get_last_status_code w)), w)
      | (Some (stamps, len), w) \<Rightarrow>
          (Inr \<lparr>ts_var_name = var_name, time_stamps = stamps, ts_data_len = len\<rparr>, w))"

subsection \<open>Predicates used to state the properties\<close>

text \<open>The handle names an open CDF: the sanity check of the low-level functions passes.\<close>

definition handle_ok :: "world \<Rightarrow> int \<Rightarrow> bool" where
  "handle_ok w cdf_handle =
     (initialised w \<and> 0 \<le> cdf_handle \<and> cdf_handle < int (length (cdf_ids w)))"

text \<open>The records stored under a variable name in the open CDF, none when the variable does not exist.\<close>

definition stored_recs :: "world \<Rightarrow> int \<Rightarrow> string \<Rightarrow> cdf_value list" where
  "stored_recs w cdf_handle name =
     (case zvars (cdf_of w cdf_handle) name of None \<Rightarrow> [] | Some v \<Rightarrow> recs v)"

text \<open>The entry of a variable attribute for a variable in the open CDF.\<close>

definition z_entry :: "world \<Rightarrow> int \<Rightarrow> string \<Rightarrow> string \<Rightarrow> cdf_value option" where
  "z_entry w cdf_handle attr_name var_name =
     (case attrs (cdf_of w cdf_handle) attr_name of
        None \<Rightarrow> None
      | Some a \<Rightarrow> z_entries a var_name)"

subsection \<open>Sample states\<close>

text \<open>A state with one open CDF, under handle 0, and a CDF that holds nothing.\<close>

definition open_world :: "cdf_file \<Rightarrow> world" where
  "open_world f =
     \<lparr>cdf_ids = [f], initialised = True, cdf_status = CDF_OK, heap_ok = True,
      status_text = (\<lambda>st. ''status'')\<rparr>"

definition empty_cdf :: cdf_file where
  "empty_cdf = \<lparr>attrs = Map.empty, zvars = Map.empty\<rparr>"

text \<open>A variable with two samples; only its type and element code vary.\<close>

definition sample_variable :: "IMCDFVariableType \<Rightarrow> string \<Rightarrow> IMCDFVariable" where
  "sample_variable t code =
     \<lparr>var_type = t, elem_rec = code, field_nam = Some ''Field'', units = Some ''nT'',
      fill_val = 99999, valid_min = - 80000, valid_max = 80000, depend_0 = Some ''DataTimes'',
      data = [1, 2], data_len = 2\<rparr>"


subsection \<open>The global attributes as the open CDF stores them\<close>

text \<open>Entry \<open>n\<close> of a global attribute when it exists and has the type asked for.\<close>

definition g_string :: "world \<Rightarrow> int \<Rightarrow> string \<Rightarrow> nat \<Rightarrow> string option" where
  "g_string w cdf_handle name n =
     (case g_entry (cdf_of w cdf_handle) name n of Some (CDF_CHAR s) \<Rightarrow> Some s | _ \<Rightarrow> None)"

definition g_double :: "world \<Rightarrow> int \<Rightarrow> string \<Rightarrow> nat \<Rightarrow> double option" where
  "g_double w cdf_handle name n =
     (case g_entry (cdf_of w cdf_handle) name n of Some (CDF_DOUBLE d) \<Rightarrow> Some d | _ \<Rightarrow> None)"

definition g_tt2000 :: "world \<Rightarrow> int \<Rightarrow> string \<Rightarrow> nat \<Rightarrow> 64 word option" where
  "g_tt2000 w cdf_handle name n =
     (case g_entry (cdf_of w cdf_handle) name n of Some (CDF_TIME_TT2000 t) \<Rightarrow> Some t | _ \<Rightarrow> None)"

text \<open>The status that each reader leaves in \<open>cdf_status\<close>.\<close>

definition gs_status :: "world \<Rightarrow> int \<Rightarrow> string \<Rightarrow> nat \<Rightarrow> CDFstatus" where
  "gs_status w cdf_handle name n =
     cdf_status (snd (imcdf_get_global_attribute_string w cdf_handle name n))"

definition gd_status :: "world \<Rightarrow> int \<Rightarrow> string \<Rightarrow> nat \<Rightarrow> CDFstatus" where
  "gd_status w cdf_handle name n =
     cdf_status (snd (imcdf_get_global_attribute_double w cdf_handle name n))"

definition gt_status :: "world \<Rightarrow> int \<Rightarrow> string \<Rightarrow> nat \<Rightarrow> CDFstatus" where
  "gt_status w cdf_handle name n =
     cdf_status (snd (imcdf_get_global_attribute_tt2000 w cdf_handle name n))"

text \<open>The strings at the head of a list of entries, up to the first gap or entry of another type.\<close>

fun leading_strings :: "cdf_value option list \<Rightarrow> string list" where
  "leading_strings (Some (CDF_CHAR s) # es) = s # leading_strings es"
| "leading_strings _ = []"

definition g_strings :: "world \<Rightarrow> int \<Rightarrow> string \<Rightarrow> nat \<Rightarrow> string list" where
  "g_strings w cdf_handle name n =
     (case attrs (cdf_of w cdf_handle) name of
        None \<Rightarrow> []
      | Some a \<Rightarrow> leading_strings (drop n (g_entries a)))"

text \<open>
  The structure that the stored attributes determine: \<open>None\<close> when a required attribute
  is missing or has another type than its field.
\<close>

definition assembled :: "world \<Rightarrow> int \<Rightarrow> IMCDFGlobalAttr option" where
  "assembled w cdf_handle =
     (case g_string w cdf_handle ''FormatDescription'' 0 of None \<Rightarrow> None | Some fd \<Rightarrow>
      (case g_string w cdf_handle ''FormatVersion'' 0 of None \<Rightarrow> None | Some fv \<Rightarrow>
      (case g_string w cdf_handle ''Title'' 0 of None \<Rightarrow> None | Some ti \<Rightarrow>
      (case g_string w cdf_handle ''IagaCode'' 0 of None \<Rightarrow> None | Some ic \<Rightarrow>
      (case g_string w cdf_handle ''ElementsRecorded'' 0 of None \<Rightarrow> None | Some er \<Rightarrow>
      (case g_string w cdf_handle ''PublicationLevel'' 0 of None \<Rightarrow> None | Some pl_str \<Rightarrow>
      (case g_tt2000 w cdf_handle ''PublicationDate'' 0 of None \<Rightarrow> None | Some pd \<Rightarrow>
      (case g_string w cdf_handle ''ObservatoryName'' 0 of None \<Rightarrow> None | Some on \<Rightarrow>
      (case g_double w cdf_handle ''Latitude'' 0 of None \<Rightarrow> None | Some la \<Rightarrow>
      (case g_double w cdf_handle ''Longitude'' 0 of None \<Rightarrow> None | Some lo \<Rightarrow>
      (case g_double w cdf_handle ''Elevation'' 0 of None \<Rightarrow> None | Some el \<Rightarrow>
      (case g_string w cdf_handle ''Institution'' 0 of None \<Rightarrow> None | Some ins \<Rightarrow>
      (case g_string w cdf_handle ''StandardLevel'' 0 of None \<Rightarrow> None | Some sl_str \<Rightarrow>
      (case g_string w cdf_handle ''Source'' 0 of None \<Rightarrow> None | Some src \<Rightarrow>
        Some \<lparr>format_description = Some fd, format_version = Some fv, title = Some ti,
              iaga_code = Some ic, elements_recorded = Some er,
              pub_level = imcdf_parse_pub_level_string pl_str, pub_date = pd,
              observatory_name = Some on, latitude = la, longitude = lo, elevation = el,
              institution = Some ins,
              vector_sens_orient = g_string w cdf_handle ''VectorSensOrient'' 0,
              standard_level = imcdf_parse_standard_level_string sl_str,
              standard_name = g_string w cdf_handle ''StandardName'' 0,
              standard_version = g_string w cdf_handle ''StandardVersion'' 0,
              partial_stand_desc = g_string w cdf_handle ''PartialStandDesc'' 0,
              source = Some src,
              terms_of_use = g_string w cdf_handle ''TermsOfUse'' 0,
              unique_identifier = g_string w cdf_handle ''UniqueIdentifier'' 0,
              parent_identifiers = g_strings w cdf_handle ''ParentIdentifiers'' 0,
              n_parent_identifiers = int (length (g_strings w cdf_handle ''ParentIdentifiers'' 0)),
              reference_links = g_strings w cdf_handle ''ReferenceLinks'' 0,
              n_reference_links = int (length (g_strings w cdf_handle ''ReferenceLinks'' 0))\<rparr>))))))))))))))"

text \<open>
  The attributes whose failed read ends \<open>imcdf_read_global_attrs\<close>, each with the type
  that its reader asks for, and those whose failed read only clears a field.
\<close>

definition required_attrs :: "(string \<times> cdf_type) list" where
  "required_attrs =
     [(''FormatDescription'', T_CDF_CHAR), (''FormatVersion'', T_CDF_CHAR), (''Title'', T_CDF_CHAR),
      (''IagaCode'', T_CDF_CHAR), (''ElementsRecorded'', T_CDF_CHAR),
      (''PublicationLevel'', T_CDF_CHAR), (''PublicationDate'', T_CDF_TIME_TT2000),
      (''ObservatoryName'', T_CDF_CHAR), (''Latitude'', T_CDF_DOUBLE),
      (''Longitude'', T_CDF_DOUBLE), (''Elevation'', T_CDF_DOUBLE), (''Institution'', T_CDF_CHAR),
      (''StandardLevel'', T_CDF_CHAR), (''Source'', T_CDF_CHAR)]"

definition optional_attrs :: "(string \<times> (IMCDFGlobalAttr \<Rightarrow> string option)) list" where
  "optional_attrs =
     [(''VectorSensOrient'', vector_sens_orient), (''StandardName'', standard_name),
      (''StandardVersion'', standard_version), (''PartialStandDesc'', partial_stand_desc),
      (''TermsOfUse'', terms_of_use), (''UniqueIdentifier'', unique_identifier)]"

text \<open>Entry 0 of the global attribute exists and has the given type.\<close>

definition has_entry :: "world \<Rightarrow> int \<Rightarrow> string \<Rightarrow> cdf_type \<Rightarrow> bool" where
  "has_entry w cdf_handle name ty =
     (case g_entry (cdf_of w cdf_handle) name 0 of
        None \<Rightarrow> False
      | Some v \<Rightarrow> data_type_of v = ty)"

text \<open>The three conditions on the stored title, format description and format version.\<close>

definition metadata_ok :: "c_platform \<Rightarrow> world \<Rightarrow> int \<Rightarrow> bool" where
  "metadata_ok c w cdf_handle =
     (case g_string w cdf_handle ''Title'' 0 of None \<Rightarrow> False | Some t \<Rightarrow>
     (case g_string w cdf_handle ''FormatDescription'' 0 of None \<Rightarrow> False | Some d \<Rightarrow>
     (case g_string w cdf_handle ''FormatVersion'' 0 of None \<Rightarrow> False | Some v \<Rightarrow>
        strcasecmp t ''Geomagnetic time series data'' = 0
        \<and> strcasecmp d ''INTERMAGNET CDF Format'' = 0
        \<and> (let imcdf_version =
                   int_of_ieee_double (int_of_invalid c)
                     (double_add (double_mult (strtod c v) (Finite 10)) (Finite (1 / 2)))
             in 11 \<le> imcdf_version \<and> imcdf_version \<le> 13))))"

text \<open>
  A CDF that holds the fourteen required global attributes and no other: only the format
  version and the two level strings vary.
\<close>

definition g_attr :: "cdf_value \<Rightarrow> cdf_attr" where
  "g_attr v = \<lparr>attr_scope = GLOBAL_SCOPE, g_entries = [Some v], z_entries = Map.empty\<rparr>"

definition sample_cdf :: "string \<Rightarrow> string \<Rightarrow> string \<Rightarrow> cdf_file" where
  "sample_cdf version level conformance =
     \<lparr>attrs = map_of
        [(''FormatDescription'', g_attr (CDF_CHAR ''INTERMAGNET CDF Format'')),
         (''FormatVersion'', g_attr (CDF_CHAR version)),
         (''Title'', g_attr (CDF_CHAR ''Geomagnetic time series data'')),
         (''IagaCode'', g_attr (CDF_CHAR ''AFO'')),
         (''ElementsRecorded'', g_attr (CDF_CHAR ''HDZ'')),
         (''PublicationLevel'', g_attr (CDF_CHAR level)),
         (''PublicationDate'', g_attr (CDF_TIME_TT2000 0)),
         (''ObservatoryName'', g_attr (CDF_CHAR ''Afo'')),
         (''Latitude'', g_attr (CDF_DOUBLE 10)),
         (''Longitude'', g_attr (CDF_DOUBLE 20)),
         (''Elevation'', g_attr (CDF_DOUBLE 30)),
         (''Institution'', g_attr (CDF_CHAR ''Institute'')),
         (''StandardLevel'', g_attr (CDF_CHAR conformance)),
         (''Source'', g_attr (CDF_CHAR ''institute''))],
      zvars = Map.empty\<rparr>"

text \<open>
  A C implementation for the examples. Its \<open>strtod\<close> returns, on the five version
  strings, the \<open>double\<close> nearest to the decimal number, which is what a correctly rounding
  library returns, and 0 elsewhere; a cast without a specified result gives the least
  \<open>int\<close>, as on x86-64.
\<close>

definition sample_platform :: c_platform where
  "sample_platform =
     \<lparr>strtod = (\<lambda>s. case map_of [(''1.0'', 1), (''1.1'', 11 / 10), (''1.2'', 12 / 10),
                                   (''1.3'', 13 / 10), (''1.4'', 14 / 10)] s of
                      Some x \<Rightarrow> round_to_double x
                    | None \<Rightarrow> Finite 0),
      int_of_invalid = (\<lambda>d. - 2147483648)\<rparr>"

text \<open>The same CDF without one of its attributes.\<close>

definition without_attr :: "cdf_file \<Rightarrow> string \<Rightarrow> cdf_file" where
  "without_attr f name = f\<lparr>attrs := (attrs f)(name := None)\<rparr>"

text \<open>The same CDF with one global attribute replaced by a single entry.\<close>

definition with_attr :: "cdf_file \<Rightarrow> string \<Rightarrow> cdf_value \<Rightarrow> cdf_file" where
  "with_attr f name v = f\<lparr>attrs := (attrs f)(name \<mapsto> g_attr v)\<rparr>"

subsection \<open>Facts about the character functions\<close>

lemma toupper_idem: "toupper (toupper c) = toupper c"
  by (auto simp: toupper_def Let_def)

lemma toupper_letters:
  "toupper CHR ''h'' = CHR ''H''" "toupper CHR ''H'' = CHR ''H''" "toupper CHR ''S'' = CHR ''S''"
  "toupper CHR ''D'' = CHR ''D''" "toupper CHR ''1'' = CHR ''1''" "toupper CHR ''2'' = CHR ''2''"
  "toupper CHR ''Q'' = CHR ''Q''" "toupper CHR ''X'' = CHR ''X''"
  by code_simp+

section \<open>Classification of element codes\<close>

text \<open>
  C10. For every variable type and every non-empty element code \<open>s\<close>, each of the two
  classification functions returns on \<open>s\<close> what it returns on the one-character string
  holding \<open>toupper (s[0])\<close>: the lowercase code \<open>h\<close> and the longer code \<open>Hxyz\<close> are
  classified as \<open>H\<close> is.
\<close>

theorem classification_first_char_only:
  assumes "s \<noteq> []"
  shows "imcdf_is_vector_gm_data t s = imcdf_is_vector_gm_data t [toupper (hd s)]
       \<and> imcdf_is_scalar_gm_data t s = imcdf_is_scalar_gm_data t [toupper (hd s)]"
  using assms
  by (cases s)
    (simp_all add: imcdf_is_vector_gm_data_def imcdf_is_scalar_gm_data_def first_char_def
      toupper_idem)

theorem classification_first_char_only_witness:
  "''Hxyz'' \<noteq> []
   \<and> imcdf_is_vector_gm_data IMCDF_VARTYPE_GEOMAGNETIC_FIELD_ELEMENT ''Hxyz''
   \<and> imcdf_is_vector_gm_data IMCDF_VARTYPE_GEOMAGNETIC_FIELD_ELEMENT ''h''
   \<and> imcdf_is_vector_gm_data IMCDF_VARTYPE_GEOMAGNETIC_FIELD_ELEMENT ''H''
   \<and> imcdf_is_scalar_gm_data IMCDF_VARTYPE_GEOMAGNETIC_FIELD_ELEMENT ''Hxyz'' = False"
proof -
  have ne: "''Hxyz'' \<noteq> []" "''h'' \<noteq> []" by simp_all
  have H: "imcdf_is_vector_gm_data IMCDF_VARTYPE_GEOMAGNETIC_FIELD_ELEMENT ''H''"
    by (simp add: imcdf_is_vector_gm_data_def first_char_def toupper_letters)
  have S: "imcdf_is_scalar_gm_data IMCDF_VARTYPE_GEOMAGNETIC_FIELD_ELEMENT ''H'' = False"
    by (simp add: imcdf_is_scalar_gm_data_def first_char_def toupper_letters)
  show ?thesis
    using classification_first_char_only [OF ne(1), of IMCDF_VARTYPE_GEOMAGNETIC_FIELD_ELEMENT]
      classification_first_char_only [OF ne(2), of IMCDF_VARTYPE_GEOMAGNETIC_FIELD_ELEMENT]
      H S
    by (simp add: toupper_letters)
qed

text \<open>
  C3 (as amended). \<open>imcdf_is_vector_gm_data\<close> returns true exactly when the type is
  GeomagneticFieldElement and the first character of the code, uppercased, is one of
  X, Y, Z, H, D, E, V, I, F; \<open>imcdf_is_scalar_gm_data\<close> returns true exactly when the type
  is GeomagneticFieldElement and the first character of the code, uppercased, is S or G.
  For any other type both return false; so H is a vector code, S is a scalar code and
  not a vector code, and Temperature with code 1 is neither.
\<close>

theorem classification_by_first_letter:
  "(imcdf_is_vector_gm_data t s \<longleftrightarrow>
      t = IMCDF_VARTYPE_GEOMAGNETIC_FIELD_ELEMENT \<and> [toupper (first_char s)] \<in> set vector_codes)
   \<and> (imcdf_is_scalar_gm_data t s \<longleftrightarrow>
      t = IMCDF_VARTYPE_GEOMAGNETIC_FIELD_ELEMENT \<and> [toupper (first_char s)] \<in> set scalar_codes)
   \<and> imcdf_is_vector_gm_data IMCDF_VARTYPE_GEOMAGNETIC_FIELD_ELEMENT ''H''
   \<and> \<not> imcdf_is_vector_gm_data IMCDF_VARTYPE_GEOMAGNETIC_FIELD_ELEMENT ''S''
   \<and> imcdf_is_scalar_gm_data IMCDF_VARTYPE_GEOMAGNETIC_FIELD_ELEMENT ''S''
   \<and> \<not> imcdf_is_vector_gm_data IMCDF_VARTYPE_TEMPERATURE ''1''
   \<and> \<not> imcdf_is_scalar_gm_data IMCDF_VARTYPE_TEMPERATURE ''1''"
  by (simp add: imcdf_is_vector_gm_data_def imcdf_is_scalar_gm_data_def vector_codes_def
      scalar_codes_def first_char_def toupper_letters Let_def)

text \<open>
  The claim as first stated asks for the code itself to be one of the listed letters.
  The lowercase code \<open>h\<close> is none of them and is classified as a vector element.
\<close>

theorem classification_lowercase_counterexample:
  "imcdf_is_vector_gm_data IMCDF_VARTYPE_GEOMAGNETIC_FIELD_ELEMENT ''h''
   \<and> ''h'' \<notin> set vector_codes"
  by (simp add: imcdf_is_vector_gm_data_def vector_codes_def first_char_def toupper_letters)

section \<open>The time model\<close>

lemma sint_inc_bounds: "- (2 ^ 31) \<le> sint (inc :: 32 word)" "sint (inc :: 32 word) < 2 ^ 31"
  using sint_ge [of inc] sint_lt [of inc] by simp_all

lemma sint_scast_mult:
  "sint ((scast (inc :: 32 word) :: 64 word) * 1000000000) = sint inc * 1000000000"
proof -
  have a: "sint (scast inc :: 64 word) = sint inc"
    by (simp add: sint_up_scast is_up)
  have "sint ((scast inc :: 64 word) * 1000000000)
      = signed_take_bit 63 (sint (scast inc :: 64 word) * sint (1000000000 :: 64 word))"
    by (simp add: sint_word_ariths)
  also have "\<dots> = signed_take_bit 63 (sint inc * 1000000000)"
    by (simp add: a)
  also have "\<dots> = sint inc * 1000000000"
    using sint_inc_bounds [of inc]
    by (intro signed_take_bit_int_eq_self) simp_all
  finally show ?thesis .
qed

lemma sdiv_exact: "(k * 1000000000) sdiv (1000000000 :: int) = k"
  by (simp add: signed_divide_int_def sgn_mult abs_mult) (simp add: sgn_if)

lemma long_div_step:
  "long_div ((scast (inc :: 32 word) :: 64 word) * 1000000000) 1000000000 = scast inc"
  by (simp add: long_div_def sint_scast_mult sdiv_exact)

lemma ucast_scast_32: "ucast (scast (inc :: 32 word) :: 64 word) = inc"
  by (rule bit_word_eqI) (auto simp: bit_simps)

lemma fill_length: "length (fill_tt2000_array n tt inc) = n"
  by (induction n arbitrary: tt) simp_all

lemma fill_nth:
  "i < n \<Longrightarrow>
   fill_tt2000_array n tt inc ! i = tt + of_nat i * ((scast inc :: 64 word) * 1000000000)"
proof (induction n arbitrary: tt i)
  case 0
  then show ?case by simp
next
  case (Suc n)
  show ?case
  proof (cases i)
    case 0
    then show ?thesis by simp
  next
    case (Suc j)
    with Suc.prems have "j < n" by simp
    from Suc.IH [OF this, of "imcdf_tt2000_inc tt inc"] Suc
    show ?thesis by (simp add: imcdf_tt2000_inc_def algebra_simps)
  qed
qed

lemma stamp_as_int:
  "tt + of_nat i * ((scast (inc :: 32 word) :: 64 word) * 1000000000)
     = word_of_int (sint tt + int i * (sint inc * 1000000000))"
  by simp

lemma sint_word_of_int_64:
  "- (2 ^ 63) \<le> k \<Longrightarrow> k < 2 ^ 63 \<Longrightarrow> sint (word_of_int k :: 64 word) = k"
  by (simp add: sint_sbintrunc' signed_take_bit_int_eq_self)

lemma stamp_sint:
  assumes "- (2 ^ 63) \<le> sint (tt :: 64 word) + int i * (sint (inc :: 32 word) * 1000000000)"
    and "sint tt + int i * (sint inc * 1000000000) < 2 ^ 63"
  shows "sint (tt + of_nat i * ((scast inc :: 64 word) * 1000000000))
           = sint tt + int i * (sint inc * 1000000000)"
  using sint_word_of_int_64 [OF assms] by (simp only: stamp_as_int)

lemma calc_two:
  "imcdf_calc_samp_per_from_tt2000 (tt # (tt + (scast inc :: 64 word) * 1000000000) # rest)
     = Some inc"
  by (simp add: long_div_step ucast_scast_32)

lemma fill_first_two:
  "fill_tt2000_array (Suc (Suc n)) tt inc =
     tt # (tt + (scast inc :: 64 word) * 1000000000)
       # fill_tt2000_array n (imcdf_tt2000_inc (imcdf_tt2000_inc tt inc) inc) inc"
  by (simp add: imcdf_tt2000_inc_def)

text \<open>
  C7. For a start date that the calendar conversion accepts, any increment and a count
  of at least 2 (and an allocation that succeeds), \<open>imcdf_make_tt2000_array\<close> returns
  count stamps whose i-th is the start epoch plus i times the increment times 1e9
  nanoseconds (as 64-bit values, and as integers wherever that sum is in the range of
  \<open>long long\<close>), and \<open>imcdf_calc_samp_per_from_tt2000\<close> on that array returns the
  increment; it reads the first two entries only, so whatever follows them does not
  change its result.
\<close>

theorem make_tt2000_array_spacing:
  assumes valid: "from_utc year month day hour minute sec \<noteq> ILLEGAL_TT2000_VALUE"
    and alloc: "malloc_ok"
    and two: "2 \<le> n_samples"
  shows "\<exists>arr st. imcdf_make_tt2000_array from_utc malloc_ok st0 year month day hour minute sec
              increment n_samples = (Some arr, st)
          \<and> length arr = nat n_samples
          \<and> (\<forall>i < nat n_samples.
                arr ! i = from_utc year month day hour minute sec
                            + of_nat i * ((scast increment :: 64 word) * 1000000000))
          \<and> (\<forall>i < nat n_samples.
                - (2 ^ 63) \<le> sint (from_utc year month day hour minute sec)
                                + int i * (sint increment * 1000000000)
                \<and> sint (from_utc year month day hour minute sec)
                                + int i * (sint increment * 1000000000) < 2 ^ 63
                \<longrightarrow> sint (arr ! i) = sint (from_utc year month day hour minute sec)
                                + int i * (sint increment * 1000000000))
          \<and> imcdf_calc_samp_per_from_tt2000 arr = Some increment
          \<and> (\<forall>rest. imcdf_calc_samp_per_from_tt2000 (take 2 arr @ rest) = Some increment)"
proof -
  let ?tt = "from_utc year month day hour minute sec"
  let ?arr = "fill_tt2000_array (nat n_samples) ?tt increment"
  have "2 \<le> nat n_samples" using two by simp
  then obtain k where k: "nat n_samples = Suc (Suc k)"
    by (auto simp: numeral_2_eq_2 dest!: le_Suc_ex)
  have run: "imcdf_make_tt2000_array from_utc malloc_ok st0 year month day hour minute sec
               increment n_samples = (Some ?arr, CDF_OK)"
    using valid alloc by (simp add: imcdf_make_tt2000_array_def imcdf_date_time_to_tt2000_def Let_def)
  have shape: "?arr = ?tt # (?tt + (scast increment :: 64 word) * 1000000000)
      # fill_tt2000_array k (imcdf_tt2000_inc (imcdf_tt2000_inc ?tt increment) increment) increment"
    unfolding k by (rule fill_first_two)
  have c1: "imcdf_calc_samp_per_from_tt2000 ?arr = Some increment"
    unfolding shape by (rule calc_two)
  have c2: "imcdf_calc_samp_per_from_tt2000 (take 2 ?arr @ rest) = Some increment" for rest
    unfolding shape using calc_two [of ?tt increment rest] by (simp add: numeral_2_eq_2)
  have c3: "\<forall>i < nat n_samples.
      - (2 ^ 63) \<le> sint ?tt + int i * (sint increment * 1000000000)
      \<and> sint ?tt + int i * (sint increment * 1000000000) < 2 ^ 63
      \<longrightarrow> sint (?arr ! i) = sint ?tt + int i * (sint increment * 1000000000)"
    by (simp add: fill_nth stamp_sint)
  show ?thesis
    using run c1 c2 c3 by (intro exI [of _ ?arr] exI [of _ CDF_OK]) (simp add: fill_length fill_nth)
qed

theorem make_tt2000_array_spacing_witness:
  "(\<lambda>y m d h mi s. 0 :: 64 word) 1980 1 1 0 0 0 \<noteq> ILLEGAL_TT2000_VALUE
   \<and> (2 :: int) \<le> 3
   \<and> imcdf_make_tt2000_array (\<lambda>y m d h mi s. 0) True CDF_OK 1980 1 1 0 0 0 60 3
        = (Some [0, 60000000000, 120000000000], CDF_OK)
   \<and> imcdf_calc_samp_per_from_tt2000 [0, 60000000000, 120000000000, 7] = Some 60"
proof -
  have v: "(\<lambda>y m d h mi s. 0 :: 64 word) 1980 1 1 0 0 0 \<noteq> ILLEGAL_TT2000_VALUE"
    by (simp add: ILLEGAL_TT2000_VALUE_def)
  have n: "(2 :: int) \<le> 3" by simp
  have three: "fill_tt2000_array 3 0 60 = [0, 60000000000, 120000000000]"
    by (simp add: numeral_3_eq_3 imcdf_tt2000_inc_def)
  from make_tt2000_array_spacing [OF v TrueI n, where ?st0.0 = CDF_OK and increment = 60]
  obtain arr st where
    run: "imcdf_make_tt2000_array (\<lambda>y m d h mi s. 0) True CDF_OK 1980 1 1 0 0 0 60 3 = (Some arr, st)"
    and per: "\<forall>rest. imcdf_calc_samp_per_from_tt2000 (take 2 arr @ rest) = Some 60"
    by blast
  have arr: "arr = [0, 60000000000, 120000000000]" and st: "st = CDF_OK"
    using run v
    by (simp_all add: imcdf_make_tt2000_array_def imcdf_date_time_to_tt2000_def three)
  from per have "imcdf_calc_samp_per_from_tt2000 (take 2 arr @ [120000000000, 7]) = Some 60"
    by blast
  then show ?thesis
    using v run by (simp add: arr st)
qed

section \<open>File names\<close>




section \<open>Handles and the shared state\<close>

lemma sanity_ok: "handle_ok w h \<Longrightarrow> sanity_check_handles w h = (0, w)"
  by (simp add: handle_ok_def sanity_check_handles_def initialise_cdf_ids_def)

lemma handle_ok_status [simp]: "handle_ok (w\<lparr>cdf_status := s\<rparr>) h = handle_ok w h"
  by (simp add: handle_ok_def)

lemma handle_ok_set_cdf [simp]: "handle_ok (set_cdf w h f) h' = handle_ok w h'"
  by (simp add: handle_ok_def set_cdf_def)

lemma cdf_of_status [simp]: "cdf_of (w\<lparr>cdf_status := s\<rparr>) h = cdf_of w h"
  by (simp add: cdf_of_def)

lemma cdf_of_set_cdf [simp]: "handle_ok w h \<Longrightarrow> cdf_of (set_cdf w h f) h = f"
proof -
  assume "handle_ok w h"
  then have "nat h < length (cdf_ids w)"
    by (simp add: handle_ok_def nat_less_iff)
  then show ?thesis
    by (simp add: cdf_of_def set_cdf_def)
qed

lemma heap_ok_status [simp]: "heap_ok (w\<lparr>cdf_status := s\<rparr>) = heap_ok w"
  by simp

lemma heap_ok_set_cdf [simp]: "heap_ok (set_cdf w h f) = heap_ok w"
  by (simp add: set_cdf_def)

section \<open>Time stamp arrays\<close>

lemma put_rec_append: "put_rec rs (length rs) x pad = rs @ [x]"
  by (simp add: put_rec_def)

lemma put_records_appends:
  assumes "handle_ok w h" and "zvars (cdf_of w h) v = Some var" and "r = length (recs var)"
  shows "\<exists>w'. put_records w h v r xs = (0, w') \<and> handle_ok w' h \<and> heap_ok w' = heap_ok w
            \<and> zvars (cdf_of w' h) v = Some (var\<lparr>recs := recs var @ xs\<rparr>)"
  using assms
proof (induction xs arbitrary: w var r)
  case Nil
  then show ?case by simp
next
  case (Cons x xs)
  let ?f = "(cdf_of w h)\<lparr>zvars := (zvars (cdf_of w h))(v \<mapsto>
               var\<lparr>recs := recs var @ [x]\<rparr>)\<rparr>"
  let ?w = "(set_cdf w h ?f)\<lparr>cdf_status := CDF_OK\<rparr>"
  have step: "put_records w h v r (x # xs) = put_records ?w h v (Suc r) xs"
    using Cons.prems by (simp add: CDFputzVarRecordData_def put_rec_append below_CDF_WARN_def)
  have ok: "handle_ok ?w h" using Cons.prems by simp
  have var: "zvars (cdf_of ?w h) v = Some (var\<lparr>recs := recs var @ [x]\<rparr>)"
    using Cons.prems by simp
  have len: "Suc r = length (recs (var\<lparr>recs := recs var @ [x]\<rparr>))"
    using Cons.prems by simp
  from Cons.IH [OF ok var len] show ?case
    unfolding step by auto
qed

lemma append_array_appends:
  assumes "handle_ok w h" and "zvars (cdf_of w h) name = Some var"
  shows "\<exists>w'. append_array w h name xs = (0, w') \<and> handle_ok w' h \<and> heap_ok w' = heap_ok w
            \<and> zvars (cdf_of w' h) name = Some (var\<lparr>recs := recs var @ xs\<rparr>)"
proof -
  let ?w = "w\<lparr>cdf_status := CDF_OK\<rparr>"
  have "append_array w h name xs = put_records ?w h name (length (recs var)) xs"
    using assms
    by (simp add: append_array_def sanity_ok CDFgetVarNum_def CDFgetzVarMaxWrittenRecNum_def Let_def)
  moreover have "handle_ok ?w h" "zvars (cdf_of ?w h) name = Some var"
    using assms by simp_all
  ultimately show ?thesis
    using put_records_appends [of ?w h name var "length (recs var)" xs] by simp
qed

lemma create_time_stamp_array_appends:
  assumes "handle_ok w h"
  shows "\<exists>w'. imcdf_create_time_stamp_array w h name stamps len = (0, w') \<and> handle_ok w' h
            \<and> heap_ok w' = heap_ok w
            \<and> zvars (cdf_of w' h) name =
                Some ((case zvars (cdf_of w h) name of
                         None \<Rightarrow> \<lparr>var_data_type = T_CDF_TIME_TT2000, recs = []\<rparr>
                       | Some var \<Rightarrow> var)
                      \<lparr>recs := stored_recs w h name @ map CDF_TIME_TT2000 (take (nat len) stamps)\<rparr>)"
proof (cases "zvars (cdf_of w h) name")
  case None
  let ?var = "\<lparr>var_data_type = T_CDF_TIME_TT2000, recs = []\<rparr>"
  let ?f = "(cdf_of w h)\<lparr>zvars := (zvars (cdf_of w h))(name \<mapsto> ?var)\<rparr>"
  let ?w = "(set_cdf w h ?f)\<lparr>cdf_status := CDF_OK\<rparr>"
  have "imcdf_create_time_stamp_array w h name stamps len
          = append_array ?w h name (map CDF_TIME_TT2000 (take (nat len) stamps))"
    using assms None
    by (simp add: imcdf_create_time_stamp_array_def sanity_ok CDFcreatezVar_def
        imcdf_append_time_stamp_array_def below_CDF_WARN_def)
  moreover have "handle_ok ?w h" "zvars (cdf_of ?w h) name = Some ?var" "heap_ok ?w = heap_ok w"
    using assms by simp_all
  ultimately show ?thesis
    using append_array_appends [of ?w h name ?var "map CDF_TIME_TT2000 (take (nat len) stamps)"] None
    by (auto simp: stored_recs_def)
next
  case (Some var)
  let ?w = "(set_cdf w h (cdf_of w h))\<lparr>cdf_status := VAR_EXISTS\<rparr>"
  have "imcdf_create_time_stamp_array w h name stamps len
          = append_array ?w h name (map CDF_TIME_TT2000 (take (nat len) stamps))"
    using assms Some
    by (simp add: imcdf_create_time_stamp_array_def sanity_ok CDFcreatezVar_def
        imcdf_append_time_stamp_array_def below_CDF_WARN_def)
  moreover have "handle_ok ?w h" "zvars (cdf_of ?w h) name = Some var" "heap_ok ?w = heap_ok w"
    using assms Some by simp_all
  ultimately show ?thesis
    using append_array_appends [of ?w h name var "map CDF_TIME_TT2000 (take (nat len) stamps)"] Some
    by (auto simp: stored_recs_def)
qed

lemma write_time_stamps_appends:
  assumes "handle_ok w h"
  shows "\<exists>w'. imcdf_write_time_stamps w h ts = (None, w') \<and> handle_ok w' h
            \<and> heap_ok w' = heap_ok w
            \<and> zvars (cdf_of w' h) (ts_var_name ts) =
                Some ((case zvars (cdf_of w h) (ts_var_name ts) of
                         None \<Rightarrow> \<lparr>var_data_type = T_CDF_TIME_TT2000, recs = []\<rparr>
                       | Some var \<Rightarrow> var)
                      \<lparr>recs := stored_recs w h (ts_var_name ts)
                          @ map CDF_TIME_TT2000 (take (nat (ts_data_len ts)) (time_stamps ts))\<rparr>)"
  using create_time_stamp_array_appends [OF assms, of "ts_var_name ts" "time_stamps ts" "ts_data_len ts"]
  by (auto simp: imcdf_write_time_stamps_def)

lemma get_records_reads:
  assumes "handle_ok w h" and "zvars (cdf_of w h) v = Some var" and "r + n \<le> length (recs var)"
  shows "\<exists>w'. get_records w h v r n = (Some (take n (drop r (recs var))), w')"
  using assms
proof (induction n arbitrary: w r)
  case 0
  then show ?case by simp
next
  case (Suc n)
  let ?w = "w\<lparr>cdf_status := CDF_OK\<rparr>"
  have ok: "handle_ok ?w h" "zvars (cdf_of ?w h) v = Some var" "Suc r + n \<le> length (recs var)"
    using Suc.prems by simp_all
  from Suc.IH [OF ok] obtain w' where
    rest: "get_records ?w h v (Suc r) n = (Some (take n (drop (Suc r) (recs var))), w')"
    by blast
  have "r < length (recs var)" using Suc.prems by simp
  then have "take (Suc n) (drop r (recs var)) = recs var ! r # take n (drop (Suc r) (recs var))"
    by (simp add: Cons_nth_drop_Suc [symmetric])
  then show ?case
    using Suc.prems rest \<open>r < length (recs var)\<close>
    by (simp add: CDFgetzVarRecordData_def below_zero_def)
qed

lemma get_var_time_stamps_reads:
  assumes "handle_ok w h" and "heap_ok w"
    and "zvars (cdf_of w h) name = Some \<lparr>var_data_type = T_CDF_TIME_TT2000, recs = map CDF_TIME_TT2000 stamps\<rparr>"
  shows "\<exists>w'. imcdf_get_var_time_stamps w h name = (Some (stamps, int (length stamps)), w')"
proof -
  let ?var = "\<lparr>var_data_type = T_CDF_TIME_TT2000, recs = map CDF_TIME_TT2000 stamps\<rparr>"
  let ?w = "w\<lparr>cdf_status := CDF_OK\<rparr>"
  have "handle_ok ?w h" "zvars (cdf_of ?w h) name = Some ?var" "0 + length stamps \<le> length (recs ?var)"
    using assms by simp_all
  from get_records_reads [OF this] obtain w' where
    "get_records ?w h name 0 (length stamps) = (Some (map CDF_TIME_TT2000 stamps), w')"
    by auto
  moreover have "map (\<lambda>v. case v of CDF_TIME_TT2000 t \<Rightarrow> t | _ \<Rightarrow> 0) (map CDF_TIME_TT2000 stamps) = stamps"
    by (induction stamps) simp_all
  ultimately show ?thesis
    using assms
    by (simp add: imcdf_get_var_time_stamps_def sanity_ok CDFgetVarNum_def CDFinquirezVar_def
        CDFgetzVarNumRecsWritten_def below_zero_def)
qed

text \<open>
  C5. With an open CDF, \<open>imcdf_write_time_stamps\<close> succeeds whether or not the variable
  exists already (the second write meets the status \<open>VAR_EXISTS\<close>), and it appends: after
  writing a series of m stamps and then one of n stamps under the same name, the records
  of that name are the ones stored before, then the m stamps, then the n stamps. For a
  name that was not in the CDF, reading the series back returns the m stamps followed by
  the n stamps.
\<close>

theorem write_time_stamps_extends:
  assumes ok: "handle_ok w h"
    and names: "ts_var_name ts1 = name" "ts_var_name ts2 = name"
    and lens: "ts_data_len ts1 = int (length (time_stamps ts1))"
      "ts_data_len ts2 = int (length (time_stamps ts2))"
  shows "\<exists>w1 w2.
           imcdf_write_time_stamps w h ts1 = (None, w1)
         \<and> fst (CDFcreatezVar (cdf_of w1 h) name T_CDF_TIME_TT2000) = VAR_EXISTS
         \<and> imcdf_write_time_stamps w1 h ts2 = (None, w2)
         \<and> stored_recs w1 h name
             = stored_recs w h name @ map CDF_TIME_TT2000 (time_stamps ts1)
         \<and> stored_recs w2 h name
             = stored_recs w h name @ map CDF_TIME_TT2000 (time_stamps ts1)
                 @ map CDF_TIME_TT2000 (time_stamps ts2)
         \<and> (zvars (cdf_of w h) name = None \<and> heap_ok w \<longrightarrow>
              fst (imcdf_read_time_stamps w2 h name)
                = Inr \<lparr>ts_var_name = name, time_stamps = time_stamps ts1 @ time_stamps ts2,
                       ts_data_len = int (length (time_stamps ts1) + length (time_stamps ts2))\<rparr>)"
proof -
  from write_time_stamps_appends [OF ok, of ts1] obtain w1 where
    w1: "imcdf_write_time_stamps w h ts1 = (None, w1)" "handle_ok w1 h" "heap_ok w1 = heap_ok w"
    and v1: "zvars (cdf_of w1 h) name =
                Some ((case zvars (cdf_of w h) name of
                         None \<Rightarrow> \<lparr>var_data_type = T_CDF_TIME_TT2000, recs = []\<rparr>
                       | Some var \<Rightarrow> var)
                      \<lparr>recs := stored_recs w h name @ map CDF_TIME_TT2000 (time_stamps ts1)\<rparr>)"
    using names lens by auto
  from write_time_stamps_appends [OF w1(2), of ts2] obtain w2 where
    w2: "imcdf_write_time_stamps w1 h ts2 = (None, w2)" "handle_ok w2 h" "heap_ok w2 = heap_ok w1"
    and v2: "zvars (cdf_of w2 h) name =
                Some ((case zvars (cdf_of w1 h) name of
                         None \<Rightarrow> \<lparr>var_data_type = T_CDF_TIME_TT2000, recs = []\<rparr>
                       | Some var \<Rightarrow> var)
                      \<lparr>recs := stored_recs w1 h name @ map CDF_TIME_TT2000 (time_stamps ts2)\<rparr>)"
    using names lens by auto
  have s1: "stored_recs w1 h name = stored_recs w h name @ map CDF_TIME_TT2000 (time_stamps ts1)"
    using v1 by (simp add: stored_recs_def)
  have s2: "stored_recs w2 h name = stored_recs w h name @ map CDF_TIME_TT2000 (time_stamps ts1)
                 @ map CDF_TIME_TT2000 (time_stamps ts2)"
    using v2 s1 by (simp add: stored_recs_def)
  have ex: "fst (CDFcreatezVar (cdf_of w1 h) name T_CDF_TIME_TT2000) = VAR_EXISTS"
    using v1 by (simp add: CDFcreatezVar_def)
  have readback: "fst (imcdf_read_time_stamps w2 h name)
                = Inr \<lparr>ts_var_name = name, time_stamps = time_stamps ts1 @ time_stamps ts2,
                       ts_data_len = int (length (time_stamps ts1) + length (time_stamps ts2))\<rparr>"
    if fresh: "zvars (cdf_of w h) name = None" and heap: "heap_ok w"
  proof -
    have "zvars (cdf_of w2 h) name = Some \<lparr>var_data_type = T_CDF_TIME_TT2000,
            recs = map CDF_TIME_TT2000 (time_stamps ts1 @ time_stamps ts2)\<rparr>"
      using v2 v1 s1 fresh by (simp add: stored_recs_def)
    from get_var_time_stamps_reads [OF w2(2) _ this] heap w1(3) w2(3)
    show ?thesis
      by (auto simp: imcdf_read_time_stamps_def)
  qed
  show ?thesis
  proof (intro exI conjI impI)
    show "imcdf_write_time_stamps w h ts1 = (None, w1)" by (fact w1(1))
    show "fst (CDFcreatezVar (cdf_of w1 h) name T_CDF_TIME_TT2000) = VAR_EXISTS" by (fact ex)
    show "imcdf_write_time_stamps w1 h ts2 = (None, w2)" by (fact w2(1))
    show "stored_recs w1 h name = stored_recs w h name @ map CDF_TIME_TT2000 (time_stamps ts1)"
      by (fact s1)
    show "stored_recs w2 h name = stored_recs w h name @ map CDF_TIME_TT2000 (time_stamps ts1)
            @ map CDF_TIME_TT2000 (time_stamps ts2)"
      by (fact s2)
    show "fst (imcdf_read_time_stamps w2 h name)
            = Inr \<lparr>ts_var_name = name, time_stamps = time_stamps ts1 @ time_stamps ts2,
                   ts_data_len = int (length (time_stamps ts1) + length (time_stamps ts2))\<rparr>"
      if "zvars (cdf_of w h) name = None \<and> heap_ok w"
      using that readback by blast
  qed
qed

theorem write_time_stamps_extends_witness:
  "handle_ok (open_world empty_cdf) 0
   \<and> (\<exists>w1 w2.
         imcdf_write_time_stamps (open_world empty_cdf) 0
           \<lparr>ts_var_name = ''GeomagneticVectorTimes'', time_stamps = [0, 60000000000],
            ts_data_len = 2\<rparr> = (None, w1)
       \<and> imcdf_write_time_stamps w1 0
           \<lparr>ts_var_name = ''GeomagneticVectorTimes'', time_stamps = [120000000000],
            ts_data_len = 1\<rparr> = (None, w2)
       \<and> stored_recs w2 0 ''GeomagneticVectorTimes''
           = [CDF_TIME_TT2000 0, CDF_TIME_TT2000 60000000000, CDF_TIME_TT2000 120000000000]
       \<and> fst (imcdf_read_time_stamps w2 0 ''GeomagneticVectorTimes'')
           = Inr \<lparr>ts_var_name = ''GeomagneticVectorTimes'',
                  time_stamps = [0, 60000000000, 120000000000], ts_data_len = 3\<rparr>)"
proof -
  let ?ts1 = "\<lparr>ts_var_name = ''GeomagneticVectorTimes'', time_stamps = [0, 60000000000 :: 64 word],
            ts_data_len = 2\<rparr>"
  let ?ts2 = "\<lparr>ts_var_name = ''GeomagneticVectorTimes'', time_stamps = [120000000000 :: 64 word],
            ts_data_len = 1\<rparr>"
  have ok: "handle_ok (open_world empty_cdf) 0"
    by (simp add: handle_ok_def open_world_def)
  have fresh: "zvars (cdf_of (open_world empty_cdf) 0) ''GeomagneticVectorTimes'' = None"
    "heap_ok (open_world empty_cdf)"
    "stored_recs (open_world empty_cdf) 0 ''GeomagneticVectorTimes'' = []"
    by (simp_all add: open_world_def empty_cdf_def cdf_of_def stored_recs_def)
  from write_time_stamps_extends [OF ok, of ?ts1 "''GeomagneticVectorTimes''" ?ts2]
  obtain w1 w2 where
    "imcdf_write_time_stamps (open_world empty_cdf) 0 ?ts1 = (None, w1)"
    "imcdf_write_time_stamps w1 0 ?ts2 = (None, w2)"
    "stored_recs w2 0 ''GeomagneticVectorTimes''
       = [CDF_TIME_TT2000 0, CDF_TIME_TT2000 60000000000, CDF_TIME_TT2000 120000000000]"
    "fst (imcdf_read_time_stamps w2 0 ''GeomagneticVectorTimes'')
       = Inr \<lparr>ts_var_name = ''GeomagneticVectorTimes'',
              time_stamps = [0, 60000000000, 120000000000], ts_data_len = 3\<rparr>"
    using fresh by auto
  then show ?thesis
    using ok by blast
qed

section \<open>Writing a variable\<close>

lemma sanity_zero:
  assumes "sanity_check_handles w h = (0, w1)"
  shows "handle_ok w h \<and> w1 = w"
  using assms
  by (auto simp: sanity_check_handles_def initialise_cdf_ids_def handle_ok_def Let_def
      split: if_splits)

lemma format_error_message_shape:
  "format_error_message w msg p st = Buffer_Overrun
   \<or> (\<exists>m. format_error_message w msg p st = Message (msg @ m))"
  by (simp add: format_error_message_def Let_def)

lemma format_error_message_plain:
  "length msg < 200 \<Longrightarrow> format_error_message w msg None CDF_OK = Message msg"
  by (simp add: format_error_message_def)

lemma put_records_keeps:
  assumes "handle_ok w h" and "zvars (cdf_of w h) v = Some var" and "r = length (recs var)"
  shows "\<exists>w'. put_records w h v r xs = (0, w') \<and> handle_ok w' h
            \<and> zvars (cdf_of w' h) v = Some (var\<lparr>recs := recs var @ xs\<rparr>)
            \<and> attrs (cdf_of w' h) = attrs (cdf_of w h)"
  using assms
proof (induction xs arbitrary: w var r)
  case Nil
  then show ?case by simp
next
  case (Cons x xs)
  let ?f = "(cdf_of w h)\<lparr>zvars := (zvars (cdf_of w h))(v \<mapsto>
               var\<lparr>recs := recs var @ [x]\<rparr>)\<rparr>"
  let ?w = "(set_cdf w h ?f)\<lparr>cdf_status := CDF_OK\<rparr>"
  have step: "put_records w h v r (x # xs) = put_records ?w h v (Suc r) xs"
    using Cons.prems by (simp add: CDFputzVarRecordData_def put_rec_append below_CDF_WARN_def)
  have ok: "handle_ok ?w h" using Cons.prems by simp
  have var: "zvars (cdf_of ?w h) v = Some (var\<lparr>recs := recs var @ [x]\<rparr>)"
    using Cons.prems by simp
  have len: "Suc r = length (recs (var\<lparr>recs := recs var @ [x]\<rparr>))"
    using Cons.prems by simp
  have at: "attrs (cdf_of ?w h) = attrs (cdf_of w h)"
    using Cons.prems by simp
  from Cons.IH [OF ok var len] show ?case
    unfolding step at by auto
qed

lemma create_data_array_writes:
  assumes "handle_ok w h"
  shows "\<exists>w'. imcdf_create_data_array w h name xs len = (0, w') \<and> handle_ok w' h
            \<and> zvars (cdf_of w' h) name \<noteq> None
            \<and> stored_recs w' h name = stored_recs w h name @ map CDF_DOUBLE (take (nat len) xs)
            \<and> attrs (cdf_of w' h) = attrs (cdf_of w h)"
proof -
  let ?xs = "map CDF_DOUBLE (take (nat len) xs)"
  have app: "\<exists>w'. append_array w0 h name ?xs = (0, w') \<and> handle_ok w' h
            \<and> zvars (cdf_of w' h) name = Some (var\<lparr>recs := recs var @ ?xs\<rparr>)
            \<and> attrs (cdf_of w' h) = attrs (cdf_of w0 h)"
    if "handle_ok w0 h" and "zvars (cdf_of w0 h) name = Some var" for w0 var
  proof -
    let ?w = "w0\<lparr>cdf_status := CDF_OK\<rparr>"
    have "append_array w0 h name ?xs = put_records ?w h name (length (recs var)) ?xs"
      using that
      by (simp add: append_array_def sanity_ok CDFgetVarNum_def CDFgetzVarMaxWrittenRecNum_def Let_def)
    moreover have "handle_ok ?w h" "zvars (cdf_of ?w h) name = Some var"
      using that by simp_all
    ultimately show ?thesis
      using put_records_keeps [of ?w h name var "length (recs var)" ?xs] by simp
  qed
  show ?thesis
  proof (cases "zvars (cdf_of w h) name")
    case None
    let ?var = "\<lparr>var_data_type = T_CDF_DOUBLE, recs = []\<rparr>"
    let ?f = "(cdf_of w h)\<lparr>zvars := (zvars (cdf_of w h))(name \<mapsto> ?var)\<rparr>"
    let ?w = "(set_cdf w h ?f)\<lparr>cdf_status := CDF_OK\<rparr>"
    have "imcdf_create_data_array w h name xs len = append_array ?w h name ?xs"
      using assms None
      by (simp add: imcdf_create_data_array_def sanity_ok CDFcreatezVar_def
          imcdf_append_data_array_def below_CDF_WARN_def)
    moreover have "handle_ok ?w h" "zvars (cdf_of ?w h) name = Some ?var"
      "attrs (cdf_of ?w h) = attrs (cdf_of w h)"
      using assms by simp_all
    ultimately show ?thesis
      using app [of ?w ?var] None by (auto simp: stored_recs_def)
  next
    case (Some var)
    let ?w = "(set_cdf w h (cdf_of w h))\<lparr>cdf_status := VAR_EXISTS\<rparr>"
    have "imcdf_create_data_array w h name xs len = append_array ?w h name ?xs"
      using assms Some
      by (simp add: imcdf_create_data_array_def sanity_ok CDFcreatezVar_def
          imcdf_append_data_array_def below_CDF_WARN_def)
    moreover have "handle_ok ?w h" "zvars (cdf_of ?w h) name = Some var"
      "attrs (cdf_of ?w h) = attrs (cdf_of w h)"
      using assms Some by simp_all
    ultimately show ?thesis
      using app [of ?w var] Some by (auto simp: stored_recs_def)
  qed
qed

lemma add_variable_attr_effect:
  assumes "add_variable_attr w h a var v = (0, w')"
  shows "handle_ok w' h" and "z_entry w' h a var = Some v"
    and "zvars (cdf_of w' h) = zvars (cdf_of w h)"
    and "a' \<noteq> a \<Longrightarrow> z_entry w' h a' var' = z_entry w h a' var'"
proof -
  obtain w1 where s: "sanity_check_handles w h = (0, w1)"
    using assms by (auto simp: add_variable_attr_def split: prod.splits if_splits)
  from sanity_zero [OF s] have ok: "handle_ok w h" and w1: "w1 = w" by simp_all
  have all: "handle_ok w' h \<and> z_entry w' h a var = Some v
      \<and> zvars (cdf_of w' h) = zvars (cdf_of w h)
      \<and> (a' \<noteq> a \<longrightarrow> z_entry w' h a' var' = z_entry w h a' var')"
    using assms ok
    by (auto simp: add_variable_attr_def sanity_ok find_variable_attribute_def CDFattrNum_def
        CDFcreateAttr_def CDFgetVarNum_def CDFputAttrzEntry_def z_entry_def Let_def
        below_CDF_WARN_def
        split: option.splits if_splits)
  show "handle_ok w' h" "z_entry w' h a var = Some v" "zvars (cdf_of w' h) = zvars (cdf_of w h)"
    using all by simp_all
  show "a' \<noteq> a \<Longrightarrow> z_entry w' h a' var' = z_entry w h a' var'"
    using all by simp
qed

lemma variable_attr_success:
  assumes "variable_attr put name rest w = (None, w')"
  shows "\<exists>w1. put w = (0, w1) \<and> rest w1 = (None, w')"
  using assms by (auto simp: variable_attr_def split: prod.splits if_splits)

lemma variable_attr_string_success:
  assumes "variable_attr_string h name var s rest w = (None, w')"
  shows "\<exists>v w1. s = Some v \<and> add_variable_attr w h name var (CDF_CHAR v) = (0, w1)
            \<and> rest w1 = (None, w')"
  using assms
  by (auto simp: variable_attr_string_def imcdf_add_variable_attr_string_def
      dest!: variable_attr_success split: option.splits)

lemma write_metadata_success:
  assumes "write_metadata h v name dep lab w = (None, w')"
  shows "z_entry w' h ''DEPEND_0'' name = Some (CDF_CHAR dep)"
    and "z_entry w' h ''DISPLAY_TYPE'' name = Some (CDF_CHAR ''time_series'')"
    and "z_entry w' h ''LABLAXIS'' name = Some (CDF_CHAR lab)"
    and "zvars (cdf_of w' h) = zvars (cdf_of w h)"
    and "handle_ok w' h"
proof -
  from assms obtain fn un w1 w2 w3 w4 w5 w6 w7 where
    s1: "add_variable_attr w h ''FIELDNAM'' name (CDF_CHAR fn) = (0, w1)"
    and s2: "add_variable_attr w1 h ''UNITS'' name (CDF_CHAR un) = (0, w2)"
    and s3: "add_variable_attr w2 h ''FILLVAL'' name (CDF_DOUBLE (fill_val v)) = (0, w3)"
    and s4: "add_variable_attr w3 h ''VALIDMIN'' name (CDF_DOUBLE (valid_min v)) = (0, w4)"
    and s5: "add_variable_attr w4 h ''VALIDMAX'' name (CDF_DOUBLE (valid_max v)) = (0, w5)"
    and s6: "add_variable_attr w5 h ''DEPEND_0'' name (CDF_CHAR dep) = (0, w6)"
    and s7: "add_variable_attr w6 h ''DISPLAY_TYPE'' name (CDF_CHAR ''time_series'') = (0, w7)"
    and s8: "add_variable_attr w7 h ''LABLAXIS'' name (CDF_CHAR lab) = (0, w')"
    unfolding write_metadata_def
    by (auto dest!: variable_attr_string_success variable_attr_success
        simp: imcdf_add_variable_attr_string_def imcdf_add_variable_attr_double_def)
  note e1 = add_variable_attr_effect [OF s1] and e2 = add_variable_attr_effect [OF s2]
    and e3 = add_variable_attr_effect [OF s3] and e4 = add_variable_attr_effect [OF s4]
    and e5 = add_variable_attr_effect [OF s5] and e6 = add_variable_attr_effect [OF s6]
    and e7 = add_variable_attr_effect [OF s7] and e8 = add_variable_attr_effect [OF s8]
  show "z_entry w' h ''DEPEND_0'' name = Some (CDF_CHAR dep)"
    using e6(2) e7(4) [of "''DEPEND_0''" name] e8(4) [of "''DEPEND_0''" name] by simp
  show "z_entry w' h ''DISPLAY_TYPE'' name = Some (CDF_CHAR ''time_series'')"
    using e7(2) e8(4) [of "''DISPLAY_TYPE''" name] by simp
  show "z_entry w' h ''LABLAXIS'' name = Some (CDF_CHAR lab)"
    using e8(2) by simp
  show "zvars (cdf_of w' h) = zvars (cdf_of w h)"
    using e1(3) e2(3) e3(3) e4(3) e5(3) e6(3) e7(3) e8(3) by simp
  show "handle_ok w' h"
    using e8(1) .
qed








lemma create_var_name_short:
  "length code \<le> 9 \<Longrightarrow>
   create_var_name t code =
     Inr (case t of
            IMCDF_VARTYPE_GEOMAGNETIC_FIELD_ELEMENT \<Rightarrow> Some (''GeomagneticField'' @ code)
          | IMCDF_VARTYPE_TEMPERATURE \<Rightarrow> Some (''Temperature'' @ code)
          | IMCDF_VARTYPE_ERROR \<Rightarrow> None)"
  by (cases t) (simp_all add: sprintf_into_def)

lemma write_variable_invalid_type:
  "var_type v = IMCDF_VARTYPE_ERROR \<Longrightarrow>
   imcdf_write_variable w h v u = (Some (Message ''Invalid variable type''), w)"
  by (simp add: imcdf_write_variable_def format_error_message_def)

lemma write_variable_success:
  assumes "imcdf_write_variable w h v u = (None, w')"
  shows "\<exists>name w1 dep lab.
           create_var_name (var_type v) (elem_rec v) = Inr (Some name)
         \<and> imcdf_create_data_array w h name (data v) (data_len v) = (0, w1)
         \<and> derive_depend_0 w1 v u = Inr dep
         \<and> make_lablaxis v = Inr lab
         \<and> write_metadata h v name dep lab w1 = (None, w')"
  using assms
  by (auto simp: imcdf_write_variable_def split: sum.splits option.splits prod.splits if_splits)

lemma depend_0_derived:
  assumes run: "imcdf_write_variable w h v False = (None, w')"
  shows "\<exists>name. create_var_name (var_type v) (elem_rec v) = Inr (Some name)
         \<and> z_entry w' h ''DEPEND_0'' name = Some (CDF_CHAR
              (if imcdf_is_vector_gm_data (var_type v) (elem_rec v) then ''GeomagneticVectorTimes''
               else if imcdf_is_scalar_gm_data (var_type v) (elem_rec v) then ''GeomagneticScalarTimes''
               else ''Temperature'' @ elem_rec v @ ''Times''))
         \<and> (imcdf_is_vector_gm_data (var_type v) (elem_rec v)
              \<or> imcdf_is_scalar_gm_data (var_type v) (elem_rec v)
              \<or> var_type v = IMCDF_VARTYPE_TEMPERATURE)"
proof -
  from write_variable_success [OF run] obtain name w1 dep lab where
    n: "create_var_name (var_type v) (elem_rec v) = Inr (Some name)"
    and d: "derive_depend_0 w1 v False = Inr dep"
    and m: "write_metadata h v name dep lab w1 = (None, w')"
    by blast
  have dep: "dep = (if imcdf_is_vector_gm_data (var_type v) (elem_rec v) then ''GeomagneticVectorTimes''
               else if imcdf_is_scalar_gm_data (var_type v) (elem_rec v) then ''GeomagneticScalarTimes''
               else ''Temperature'' @ elem_rec v @ ''Times'')"
    and kind: "imcdf_is_vector_gm_data (var_type v) (elem_rec v)
              \<or> imcdf_is_scalar_gm_data (var_type v) (elem_rec v)
              \<or> var_type v = IMCDF_VARTYPE_TEMPERATURE"
    using d
    by (auto simp: derive_depend_0_def sprintf_into_def VECTOR_TIME_STAMPS_VAR_NAME_def
        SCALAR_TIME_STAMPS_VAR_NAME_def TEMPERATURE_TIME_STAMPS_VAR_NAME_def split: if_splits)
  from write_metadata_success(1) [OF m] n dep kind show ?thesis
    by simp
qed

lemma depend_0_given:
  assumes run: "imcdf_write_variable w h v True = (None, w')"
  shows "\<exists>name d. create_var_name (var_type v) (elem_rec v) = Inr (Some name)
         \<and> depend_0 v = Some d
         \<and> z_entry w' h ''DEPEND_0'' name = Some (CDF_CHAR d)"
proof -
  from write_variable_success [OF run] obtain name w1 dep lab where
    n: "create_var_name (var_type v) (elem_rec v) = Inr (Some name)"
    and d: "derive_depend_0 w1 v True = Inr dep"
    and m: "write_metadata h v name dep lab w1 = (None, w')"
    by blast
  from d have "depend_0 v = Some dep"
    by (auto simp: derive_depend_0_def sprintf_into_def split: option.splits if_splits)
  with write_metadata_success(1) [OF m] n show ?thesis
    by simp
qed

lemma invalid_element_code:
  assumes ok: "handle_ok w h"
    and gfe: "var_type v = IMCDF_VARTYPE_GEOMAGNETIC_FIELD_ELEMENT"
    and short: "length (elem_rec v) \<le> 9"
    and nv: "\<not> imcdf_is_vector_gm_data (var_type v) (elem_rec v)"
    and ns: "\<not> imcdf_is_scalar_gm_data (var_type v) (elem_rec v)"
  shows "fst (imcdf_write_variable w h v False) = Some (Message ''Missing or invalid element code'')
        \<and> stored_recs (snd (imcdf_write_variable w h v False)) h (''GeomagneticField'' @ elem_rec v)
            = stored_recs w h (''GeomagneticField'' @ elem_rec v)
                @ map CDF_DOUBLE (take (nat (data_len v)) (data v))"
proof -
  let ?name = "''GeomagneticField'' @ elem_rec v"
  have n: "create_var_name (var_type v) (elem_rec v) = Inr (Some ?name)"
    using create_var_name_short [OF short, of "var_type v"] gfe by simp
  from create_data_array_writes [OF ok, of ?name "data v" "data_len v"] obtain w1 where
    c: "imcdf_create_data_array w h ?name (data v) (data_len v) = (0, w1)"
    and s: "stored_recs w1 h ?name = stored_recs w h ?name @ map CDF_DOUBLE (take (nat (data_len v)) (data v))"
    by blast
  have d: "derive_depend_0 w1 v False = Inl (Message ''Missing or invalid element code'')"
    using gfe nv ns by (auto simp: derive_depend_0_def format_error_message_def)
  have "imcdf_write_variable w h v False = (Some (Message ''Missing or invalid element code''), w1)"
    using n c d by (simp add: imcdf_write_variable_def)
  with s show ?thesis
    by simp
qed

text \<open>
  C2 (as amended). When \<open>imcdf_write_variable\<close> with \<open>use_given_depend_0\<close> false writes a
  variable, the DEPEND_0 entry of that variable is \<open>GeomagneticVectorTimes\<close> for a
  GeomagneticFieldElement with a vector code, \<open>GeomagneticScalarTimes\<close> for one with a
  scalar code, and \<open>Temperature\<close>, the code, \<open>Times\<close> for a Temperature variable (no
  other variable is written). With \<open>use_given_depend_0\<close> true the entry is the
  variable's own dependency string. With an open CDF, a GeomagneticFieldElement whose
  code (of at most 9 characters) is neither vector nor scalar makes the write return
  the message \<open>Missing or invalid element code\<close>, after its data array has been
  written; a variable whose type is neither GeomagneticFieldElement nor Temperature is
  rejected before anything is written, with the message \<open>Invalid variable type\<close>.
\<close>

theorem write_variable_depend_0:
  "(imcdf_write_variable w h v False = (None, w') \<longrightarrow>
      (\<exists>name. create_var_name (var_type v) (elem_rec v) = Inr (Some name)
         \<and> z_entry w' h ''DEPEND_0'' name = Some (CDF_CHAR
              (if imcdf_is_vector_gm_data (var_type v) (elem_rec v) then ''GeomagneticVectorTimes''
               else if imcdf_is_scalar_gm_data (var_type v) (elem_rec v) then ''GeomagneticScalarTimes''
               else ''Temperature'' @ elem_rec v @ ''Times''))
         \<and> (imcdf_is_vector_gm_data (var_type v) (elem_rec v)
              \<or> imcdf_is_scalar_gm_data (var_type v) (elem_rec v)
              \<or> var_type v = IMCDF_VARTYPE_TEMPERATURE)))
   \<and> (imcdf_write_variable w h v True = (None, w') \<longrightarrow>
      (\<exists>name d. create_var_name (var_type v) (elem_rec v) = Inr (Some name)
         \<and> depend_0 v = Some d
         \<and> z_entry w' h ''DEPEND_0'' name = Some (CDF_CHAR d)))
   \<and> (handle_ok w h \<and> var_type v = IMCDF_VARTYPE_GEOMAGNETIC_FIELD_ELEMENT
        \<and> length (elem_rec v) \<le> 9
        \<and> \<not> imcdf_is_vector_gm_data (var_type v) (elem_rec v)
        \<and> \<not> imcdf_is_scalar_gm_data (var_type v) (elem_rec v) \<longrightarrow>
        fst (imcdf_write_variable w h v False) = Some (Message ''Missing or invalid element code'')
        \<and> stored_recs (snd (imcdf_write_variable w h v False)) h (''GeomagneticField'' @ elem_rec v)
            = stored_recs w h (''GeomagneticField'' @ elem_rec v)
                @ map CDF_DOUBLE (take (nat (data_len v)) (data v)))
   \<and> (var_type v = IMCDF_VARTYPE_ERROR \<longrightarrow>
        imcdf_write_variable w h v u = (Some (Message ''Invalid variable type''), w))"
  apply (rule conjI)
   apply (rule impI)
   apply (erule depend_0_derived)
  apply (rule conjI)
   apply (rule impI)
   apply (erule depend_0_given)
  apply (rule conjI)
   apply (rule impI)
   apply (elim conjE)
   apply (rule invalid_element_code; assumption)
  apply (rule impI)
  apply (erule write_variable_invalid_type)
  done

theorem write_variable_depend_0_witness:
  "fst (imcdf_write_variable (open_world empty_cdf) 0
          (sample_variable IMCDF_VARTYPE_GEOMAGNETIC_FIELD_ELEMENT ''D'') False) = None
   \<and> z_entry (snd (imcdf_write_variable (open_world empty_cdf) 0
          (sample_variable IMCDF_VARTYPE_GEOMAGNETIC_FIELD_ELEMENT ''D'') False))
        0 ''DEPEND_0'' ''GeomagneticFieldD'' = Some (CDF_CHAR ''GeomagneticVectorTimes'')
   \<and> fst (imcdf_write_variable (open_world empty_cdf) 0
          (sample_variable IMCDF_VARTYPE_TEMPERATURE ''2'') False) = None
   \<and> z_entry (snd (imcdf_write_variable (open_world empty_cdf) 0
          (sample_variable IMCDF_VARTYPE_TEMPERATURE ''2'') False))
        0 ''DEPEND_0'' ''Temperature2'' = Some (CDF_CHAR ''Temperature2Times'')
   \<and> fst (imcdf_write_variable (open_world empty_cdf) 0
          (sample_variable IMCDF_VARTYPE_GEOMAGNETIC_FIELD_ELEMENT ''S'') True) = None
   \<and> z_entry (snd (imcdf_write_variable (open_world empty_cdf) 0
          (sample_variable IMCDF_VARTYPE_GEOMAGNETIC_FIELD_ELEMENT ''S'') True))
        0 ''DEPEND_0'' ''GeomagneticFieldS'' = Some (CDF_CHAR ''DataTimes'')
   \<and> handle_ok (open_world empty_cdf) 0
   \<and> fst (imcdf_write_variable (open_world empty_cdf) 0
          (sample_variable IMCDF_VARTYPE_GEOMAGNETIC_FIELD_ELEMENT ''Q'') False)
        = Some (Message ''Missing or invalid element code'')
   \<and> imcdf_write_variable (open_world empty_cdf) 0
          (sample_variable IMCDF_VARTYPE_ERROR ''X'') False
        = (Some (Message ''Invalid variable type''), open_world empty_cdf)"
proof -
  let ?w = "open_world empty_cdf"
  let ?D = "sample_variable IMCDF_VARTYPE_GEOMAGNETIC_FIELD_ELEMENT ''D''"
  let ?T = "sample_variable IMCDF_VARTYPE_TEMPERATURE ''2''"
  let ?S = "sample_variable IMCDF_VARTYPE_GEOMAGNETIC_FIELD_ELEMENT ''S''"
  let ?Q = "sample_variable IMCDF_VARTYPE_GEOMAGNETIC_FIELD_ELEMENT ''Q''"
  let ?X = "sample_variable IMCDF_VARTYPE_ERROR ''X''"
  have fD: "fst (imcdf_write_variable ?w 0 ?D False) = None"
    and fT: "fst (imcdf_write_variable ?w 0 ?T False) = None"
    and fS: "fst (imcdf_write_variable ?w 0 ?S True) = None"
    by code_simp+
  have ok: "handle_ok ?w 0"
    by (simp add: handle_ok_def open_world_def)
  have facts:
    "create_var_name (var_type ?D) (elem_rec ?D) = Inr (Some ''GeomagneticFieldD'')"
    "imcdf_is_vector_gm_data (var_type ?D) (elem_rec ?D)"
    "create_var_name (var_type ?T) (elem_rec ?T) = Inr (Some ''Temperature2'')"
    "\<not> imcdf_is_vector_gm_data (var_type ?T) (elem_rec ?T)"
    "\<not> imcdf_is_scalar_gm_data (var_type ?T) (elem_rec ?T)"
    "elem_rec ?T = ''2''"
    "create_var_name (var_type ?S) (elem_rec ?S) = Inr (Some ''GeomagneticFieldS'')"
    "depend_0 ?S = Some ''DataTimes''"
    "var_type ?Q = IMCDF_VARTYPE_GEOMAGNETIC_FIELD_ELEMENT" "length (elem_rec ?Q) \<le> 9"
    "\<not> imcdf_is_vector_gm_data (var_type ?Q) (elem_rec ?Q)"
    "\<not> imcdf_is_scalar_gm_data (var_type ?Q) (elem_rec ?Q)"
    "var_type ?X = IMCDF_VARTYPE_ERROR"
    by (simp_all add: sample_variable_def sprintf_into_def imcdf_is_vector_gm_data_def
        imcdf_is_scalar_gm_data_def first_char_def toupper_letters)
  have rD: "imcdf_write_variable ?w 0 ?D False = (None, snd (imcdf_write_variable ?w 0 ?D False))"
    and rT: "imcdf_write_variable ?w 0 ?T False = (None, snd (imcdf_write_variable ?w 0 ?T False))"
    and rS: "imcdf_write_variable ?w 0 ?S True = (None, snd (imcdf_write_variable ?w 0 ?S True))"
    using fD fT fS by (simp_all add: prod_eq_iff)
  have D: "z_entry (snd (imcdf_write_variable ?w 0 ?D False)) 0 ''DEPEND_0'' ''GeomagneticFieldD''
             = Some (CDF_CHAR ''GeomagneticVectorTimes'')"
    using write_variable_depend_0 [THEN conjunct1, rule_format, OF rD] facts(1,2) by simp
  have T: "z_entry (snd (imcdf_write_variable ?w 0 ?T False)) 0 ''DEPEND_0'' ''Temperature2''
             = Some (CDF_CHAR ''Temperature2Times'')"
    using write_variable_depend_0 [THEN conjunct1, rule_format, OF rT] facts(3-6) by simp
  have S: "z_entry (snd (imcdf_write_variable ?w 0 ?S True)) 0 ''DEPEND_0'' ''GeomagneticFieldS''
             = Some (CDF_CHAR ''DataTimes'')"
    using write_variable_depend_0 [THEN conjunct2, THEN conjunct1, rule_format, OF rS] facts(7,8)
    by simp
  have Q: "fst (imcdf_write_variable ?w 0 ?Q False) = Some (Message ''Missing or invalid element code'')"
    using write_variable_depend_0 [THEN conjunct2, THEN conjunct2, THEN conjunct1, rule_format,
        of ?w 0 ?Q] ok facts(9-12) by blast
  have X: "imcdf_write_variable ?w 0 ?X False = (Some (Message ''Invalid variable type''), ?w)"
    using write_variable_depend_0 [THEN conjunct2, THEN conjunct2, THEN conjunct2, rule_format,
        OF facts(13)] .
  show ?thesis
    using fD D fT T fS S ok Q X by (intro conjI)
qed

text \<open>
  The claim as first stated has every type and code combination outside the three
  derivations end in the invalid-element error. A variable of type
  \<open>IMCDF_VARTYPE_ERROR\<close> is such a combination, and the write returns the message
  \<open>Invalid variable type\<close> for it, not \<open>Missing or invalid element code\<close>.
\<close>

theorem write_variable_error_type_counterexample:
  "\<not> imcdf_is_vector_gm_data IMCDF_VARTYPE_ERROR ''X''
   \<and> \<not> imcdf_is_scalar_gm_data IMCDF_VARTYPE_ERROR ''X''
   \<and> fst (imcdf_write_variable (open_world empty_cdf) 0
            (sample_variable IMCDF_VARTYPE_ERROR ''X'') False)
       = Some (Message ''Invalid variable type'')
   \<and> fst (imcdf_write_variable (open_world empty_cdf) 0
            (sample_variable IMCDF_VARTYPE_ERROR ''X'') False)
       \<noteq> Some (Message ''Missing or invalid element code'')"
  by (simp add: imcdf_write_variable_def sample_variable_def format_error_message_def
      imcdf_is_vector_gm_data_def imcdf_is_scalar_gm_data_def)







section \<open>Reading the global attributes\<close>

declare probe_entries.simps [simp del]

lemma g_lookup_status [simp]:
  "g_string (w\<lparr>cdf_status := s\<rparr>) h name n = g_string w h name n"
  "g_double (w\<lparr>cdf_status := s\<rparr>) h name n = g_double w h name n"
  "g_tt2000 (w\<lparr>cdf_status := s\<rparr>) h name n = g_tt2000 w h name n"
  "g_strings (w\<lparr>cdf_status := s\<rparr>) h name n = g_strings w h name n"
  by (simp_all add: g_string_def g_double_def g_tt2000_def g_strings_def)

lemma status_exists [simp]: "\<exists>st. w\<lparr>cdf_status := a\<rparr> = w\<lparr>cdf_status := st\<rparr>"
  by (rule exI) (rule refl)

lemma attr_num_cases:
  "CDFattrNum f name = (if attrs f name = None then Inl NO_SUCH_ATTR else Inr name)"
  by (simp add: CDFattrNum_def split: option.splits)

lemma g_entry_no_attr: "attrs f name = None \<Longrightarrow> g_entry f name n = None"
  by (simp add: g_entry_def)

lemma get_string_state:
  assumes "handle_ok w h" and "heap_ok w"
  shows "\<exists>st. imcdf_get_global_attribute_string w h name n
           = (g_string w h name n, w\<lparr>cdf_status := st\<rparr>)"
proof (cases "g_entry (cdf_of w h) name n")
  case None
  then show ?thesis
    using assms
    by (simp add: imcdf_get_global_attribute_string_def sanity_ok attr_num_cases g_string_def
        CDFinquireAttrgEntry_def below_zero_def)
next
  case (Some v)
  then have "attrs (cdf_of w h) name \<noteq> None"
    using g_entry_no_attr [of "cdf_of w h" name n] by auto
  with Some show ?thesis
    using assms
    by (cases v)
      (simp_all add: imcdf_get_global_attribute_string_def sanity_ok attr_num_cases g_string_def
        CDFinquireAttrgEntry_def CDFgetAttrgEntry_def below_zero_def)
qed

lemma get_double_state:
  assumes "handle_ok w h"
  shows "\<exists>st. imcdf_get_global_attribute_double w h name n
           = (g_double w h name n, w\<lparr>cdf_status := st\<rparr>)"
proof (cases "g_entry (cdf_of w h) name n")
  case None
  then show ?thesis
    using assms
    by (simp add: imcdf_get_global_attribute_double_def sanity_ok attr_num_cases g_double_def
        CDFinquireAttrgEntry_def below_zero_def)
next
  case (Some v)
  then have "attrs (cdf_of w h) name \<noteq> None"
    using g_entry_no_attr [of "cdf_of w h" name n] by auto
  with Some show ?thesis
    using assms
    by (cases v)
      (simp_all add: imcdf_get_global_attribute_double_def sanity_ok attr_num_cases g_double_def
        CDFinquireAttrgEntry_def CDFgetAttrgEntry_def below_zero_def)
qed

lemma get_tt2000_state:
  assumes "handle_ok w h"
  shows "\<exists>st. imcdf_get_global_attribute_tt2000 w h name n
           = (g_tt2000 w h name n, w\<lparr>cdf_status := st\<rparr>)"
proof (cases "g_entry (cdf_of w h) name n")
  case None
  then show ?thesis
    using assms
    by (simp add: imcdf_get_global_attribute_tt2000_def sanity_ok attr_num_cases g_tt2000_def
        CDFinquireAttrgEntry_def below_zero_def)
next
  case (Some v)
  then have "attrs (cdf_of w h) name \<noteq> None"
    using g_entry_no_attr [of "cdf_of w h" name n] by auto
  with Some show ?thesis
    using assms
    by (cases v)
      (simp_all add: imcdf_get_global_attribute_tt2000_def sanity_ok attr_num_cases g_tt2000_def
        CDFinquireAttrgEntry_def CDFgetAttrgEntry_def below_zero_def)
qed

lemma get_string_reads:
  assumes "handle_ok w h" and "heap_ok w"
  shows "imcdf_get_global_attribute_string w h name n
           = (g_string w h name n, w\<lparr>cdf_status := gs_status w h name n\<rparr>)"
  using get_string_state [OF assms, of name n] by (auto simp: gs_status_def)

lemma get_double_reads:
  assumes "handle_ok w h"
  shows "imcdf_get_global_attribute_double w h name n
           = (g_double w h name n, w\<lparr>cdf_status := gd_status w h name n\<rparr>)"
  using get_double_state [OF assms, of name n] by (auto simp: gd_status_def)

lemma get_tt2000_reads:
  assumes "handle_ok w h"
  shows "imcdf_get_global_attribute_tt2000 w h name n
           = (g_tt2000 w h name n, w\<lparr>cdf_status := gt_status w h name n\<rparr>)"
  using get_tt2000_state [OF assms, of name n] by (auto simp: gt_status_def)

lemma gs_status_value:
  assumes "handle_ok w h" and "heap_ok w"
  shows "gs_status w h name n =
           (if attrs (cdf_of w h) name = None then NO_SUCH_ATTR
            else if g_entry (cdf_of w h) name n = None then NO_SUCH_ENTRY else CDF_OK)"
proof (cases "g_entry (cdf_of w h) name n")
  case None
  then show ?thesis
    using assms
    by (simp add: gs_status_def imcdf_get_global_attribute_string_def sanity_ok attr_num_cases
        CDFinquireAttrgEntry_def below_zero_def)
next
  case (Some v)
  then have "attrs (cdf_of w h) name \<noteq> None"
    using g_entry_no_attr [of "cdf_of w h" name n] by auto
  with Some show ?thesis
    using assms
    by (cases v)
      (simp_all add: gs_status_def imcdf_get_global_attribute_string_def sanity_ok attr_num_cases
        CDFinquireAttrgEntry_def CDFgetAttrgEntry_def below_zero_def)
qed

lemma gd_status_value:
  assumes "handle_ok w h"
  shows "gd_status w h name n =
           (if attrs (cdf_of w h) name = None then NO_SUCH_ATTR
            else if g_entry (cdf_of w h) name n = None then NO_SUCH_ENTRY else CDF_OK)"
proof (cases "g_entry (cdf_of w h) name n")
  case None
  then show ?thesis
    using assms
    by (simp add: gd_status_def imcdf_get_global_attribute_double_def sanity_ok attr_num_cases
        CDFinquireAttrgEntry_def below_zero_def)
next
  case (Some v)
  then have "attrs (cdf_of w h) name \<noteq> None"
    using g_entry_no_attr [of "cdf_of w h" name n] by auto
  with Some show ?thesis
    using assms
    by (cases v)
      (simp_all add: gd_status_def imcdf_get_global_attribute_double_def sanity_ok attr_num_cases
        CDFinquireAttrgEntry_def CDFgetAttrgEntry_def below_zero_def)
qed

lemma gt_status_value:
  assumes "handle_ok w h"
  shows "gt_status w h name n =
           (if attrs (cdf_of w h) name = None then NO_SUCH_ATTR
            else if g_entry (cdf_of w h) name n = None then NO_SUCH_ENTRY else CDF_OK)"
proof (cases "g_entry (cdf_of w h) name n")
  case None
  then show ?thesis
    using assms
    by (simp add: gt_status_def imcdf_get_global_attribute_tt2000_def sanity_ok attr_num_cases
        CDFinquireAttrgEntry_def below_zero_def)
next
  case (Some v)
  then have "attrs (cdf_of w h) name \<noteq> None"
    using g_entry_no_attr [of "cdf_of w h" name n] by auto
  with Some show ?thesis
    using assms
    by (cases v)
      (simp_all add: gt_status_def imcdf_get_global_attribute_tt2000_def sanity_ok attr_num_cases
        CDFinquireAttrgEntry_def CDFgetAttrgEntry_def below_zero_def)
qed

lemma status_after_status:
  assumes "handle_ok w h" and "heap_ok w"
  shows "gs_status (w\<lparr>cdf_status := s\<rparr>) h name n = gs_status w h name n"
    and "gd_status (w\<lparr>cdf_status := s\<rparr>) h name n = gd_status w h name n"
    and "gt_status (w\<lparr>cdf_status := s\<rparr>) h name n = gt_status w h name n"
  using assms by (simp_all add: gs_status_value gd_status_value gt_status_value)

lemma g_string_drop:
  "g_string w h name n = Some s \<Longrightarrow> g_strings w h name n = s # g_strings w h name (Suc n)"
  by (auto simp: g_string_def g_strings_def g_entry_def Cons_nth_drop_Suc [symmetric]
      split: option.splits cdf_value.splits if_splits)

lemma g_string_none:
  "g_string w h name n = None \<Longrightarrow> g_strings w h name n = []"
  apply (auto simp: g_string_def g_strings_def g_entry_def
      split: option.splits cdf_value.splits if_splits)
    apply (auto simp: Cons_nth_drop_Suc [symmetric])
  done

lemma probe_entries_reads:
  assumes "handle_ok w h" and "heap_ok w"
  shows "probe_entries w h name n acc
           = (Inr (acc @ g_strings w h name n),
              w\<lparr>cdf_status := gs_status w h name (n + length (g_strings w h name n))\<rparr>)"
  using assms
proof (induction w h name n acc rule: probe_entries.induct)
  case (1 w h name n acc)
  show ?case
  proof (cases "g_string w h name n")
    case None
    then show ?thesis
      using "1.prems"
      by (subst probe_entries.simps) (simp add: get_string_reads g_string_none)
  next
    case (Some s)
    let ?w = "w\<lparr>cdf_status := gs_status w h name n\<rparr>"
    have g: "imcdf_get_global_attribute_string w h name n = (Some s, ?w)"
      using "1.prems" Some by (simp add: get_string_reads)
    have "probe_entries ?w h name (Suc n) (acc @ [s])
            = (Inr ((acc @ [s]) @ g_strings ?w h name (Suc n)),
               ?w\<lparr>cdf_status := gs_status ?w h name (Suc n + length (g_strings ?w h name (Suc n)))\<rparr>)"
      using "1.prems" by (intro "1.IH" [OF g [symmetric] refl]) simp_all
    then show ?thesis
      using "1.prems" g Some
      by (subst probe_entries.simps) (simp add: g_string_drop status_after_status)
  qed
qed

lemma format_error_message_world:
  "format_error_message (w\<lparr>cdf_status := s\<rparr>) msg param CDF_OK = format_error_message w msg param CDF_OK"
  by (simp add: format_error_message_def)

lemma check_metadata_world:
  "check_metadata c (w\<lparr>cdf_status := s\<rparr>) ga = check_metadata c w ga"
  by (simp add: check_metadata_def format_error_message_world
      cong: option.case_cong prod.case_cong if_cong)

text \<open>One step of the chain of reads, from a state that differs from \<open>w\<close> in the last status.\<close>

lemma required_string_step:
  assumes "handle_ok w h" and "heap_ok w"
  shows "required_attr (\<lambda>w. imcdf_get_global_attribute_string w h name 0) label rest
           (w\<lparr>cdf_status := s\<rparr>)
         = (case g_string w h name 0 of
              None \<Rightarrow>
                (Inl (format_error_message (w\<lparr>cdf_status := gs_status w h name 0\<rparr>)
                        ''Error reading global attribute'' (Some label) (gs_status w h name 0)),
                 w\<lparr>cdf_status := gs_status w h name 0\<rparr>)
            | Some v \<Rightarrow> rest v (w\<lparr>cdf_status := gs_status w h name 0\<rparr>))"
  using assms
  by (simp add: required_attr_def get_string_reads status_after_status
      imcdf_get_last_status_code_def split: option.split)

lemma required_double_step:
  assumes "handle_ok w h" and "heap_ok w"
  shows "required_attr (\<lambda>w. imcdf_get_global_attribute_double w h name 0) label rest
           (w\<lparr>cdf_status := s\<rparr>)
         = (case g_double w h name 0 of
              None \<Rightarrow>
                (Inl (format_error_message (w\<lparr>cdf_status := gd_status w h name 0\<rparr>)
                        ''Error reading global attribute'' (Some label) (gd_status w h name 0)),
                 w\<lparr>cdf_status := gd_status w h name 0\<rparr>)
            | Some v \<Rightarrow> rest v (w\<lparr>cdf_status := gd_status w h name 0\<rparr>))"
  using assms
  by (simp add: required_attr_def get_double_reads status_after_status
      imcdf_get_last_status_code_def split: option.split)

lemma required_tt2000_step:
  assumes "handle_ok w h" and "heap_ok w"
  shows "required_attr (\<lambda>w. imcdf_get_global_attribute_tt2000 w h name 0) label rest
           (w\<lparr>cdf_status := s\<rparr>)
         = (case g_tt2000 w h name 0 of
              None \<Rightarrow>
                (Inl (format_error_message (w\<lparr>cdf_status := gt_status w h name 0\<rparr>)
                        ''Error reading global attribute'' (Some label) (gt_status w h name 0)),
                 w\<lparr>cdf_status := gt_status w h name 0\<rparr>)
            | Some v \<Rightarrow> rest v (w\<lparr>cdf_status := gt_status w h name 0\<rparr>))"
  using assms
  by (simp add: required_attr_def get_tt2000_reads status_after_status
      imcdf_get_last_status_code_def split: option.split)

lemma optional_string_step:
  assumes "handle_ok w h" and "heap_ok w"
  shows "optional_attr (\<lambda>w. imcdf_get_global_attribute_string w h name 0) rest
           (w\<lparr>cdf_status := s\<rparr>)
         = rest (g_string w h name 0) (w\<lparr>cdf_status := gs_status w h name 0\<rparr>)"
  using assms
  by (simp add: optional_attr_def get_string_reads status_after_status)

lemma probe_entries_step:
  assumes "handle_ok w h" and "heap_ok w"
  shows "probe_entries (w\<lparr>cdf_status := s\<rparr>) h name 0 []
           = (Inr (g_strings w h name 0),
              w\<lparr>cdf_status := gs_status w h name (length (g_strings w h name 0))\<rparr>)"
  using assms by (simp add: probe_entries_reads status_after_status)

lemmas read_steps =
  required_string_step required_double_step required_tt2000_step optional_string_step
  probe_entries_step

lemma read_global_attrs_assembled:
  assumes "handle_ok w h" and "heap_ok w" and "assembled w h = Some ga"
  shows "fst (imcdf_read_global_attrs c (w\<lparr>cdf_status := s\<rparr>) h)
           = (case check_metadata c w ga of Some e \<Rightarrow> Inl e | None \<Rightarrow> Inr ga)"
  unfolding imcdf_read_global_attrs_def
  apply (simp only: read_steps [OF assms(1,2)] prod.case sum.case)
  using assms(3) unfolding assembled_def
  apply (auto split: option.splits simp: check_metadata_world)
  done

lemma read_global_attrs_missing:
  assumes "handle_ok w h" and "heap_ok w" and "assembled w h = None"
  shows "isl (fst (imcdf_read_global_attrs c (w\<lparr>cdf_status := s\<rparr>) h))"
  unfolding imcdf_read_global_attrs_def
  apply (simp only: read_steps [OF assms(1,2)] prod.case sum.case)
  using assms(3) unfolding assembled_def
  apply (auto split: option.splits simp: check_metadata_world)
  done

lemma read_global_attrs_valid:
  assumes "handle_ok w h" and "heap_ok w" and "assembled w h = Some ga"
  shows "fst (imcdf_read_global_attrs c w h)
           = (case check_metadata c w ga of Some e \<Rightarrow> Inl e | None \<Rightarrow> Inr ga)"
  using read_global_attrs_assembled [OF assms, where s = "cdf_status w" and c = c]
  by simp

lemma read_global_attrs_fails:
  assumes "handle_ok w h" and "heap_ok w" and "assembled w h = None"
  shows "isl (fst (imcdf_read_global_attrs c w h))"
  using read_global_attrs_missing [OF assms, where s = "cdf_status w" and c = c]
  by simp

lemma read_global_attrs_success:
  assumes "handle_ok w h" and "heap_ok w" and "fst (imcdf_read_global_attrs c w h) = Inr ga"
  shows "assembled w h = Some ga \<and> check_metadata c w ga = None"
proof (cases "assembled w h")
  case None
  then show ?thesis
    using read_global_attrs_fails [OF assms(1,2), where c = c] assms(3) by simp
next
  case (Some ga')
  then show ?thesis
    using read_global_attrs_valid [OF assms(1,2) Some, where c = c] assms(3)
    by (auto split: option.splits)
qed

lemma assembled_fields:
  assumes "assembled w h = Some ga"
  shows "format_description ga = g_string w h ''FormatDescription'' 0"
    and "format_version ga = g_string w h ''FormatVersion'' 0"
    and "title ga = g_string w h ''Title'' 0"
    and "\<exists>pl. g_string w h ''PublicationLevel'' 0 = Some pl
            \<and> pub_level ga = imcdf_parse_pub_level_string pl"
    and "\<exists>sl. g_string w h ''StandardLevel'' 0 = Some sl
            \<and> standard_level ga = imcdf_parse_standard_level_string sl"
    and "vector_sens_orient ga = g_string w h ''VectorSensOrient'' 0"
    and "standard_name ga = g_string w h ''StandardName'' 0"
    and "standard_version ga = g_string w h ''StandardVersion'' 0"
    and "partial_stand_desc ga = g_string w h ''PartialStandDesc'' 0"
    and "terms_of_use ga = g_string w h ''TermsOfUse'' 0"
    and "unique_identifier ga = g_string w h ''UniqueIdentifier'' 0"
    and "g_string w h ''FormatDescription'' 0 \<noteq> None"
    and "g_string w h ''FormatVersion'' 0 \<noteq> None"
    and "g_string w h ''Title'' 0 \<noteq> None"
  using assms unfolding assembled_def by (auto split: option.splits)

lemma check_metadata_ok:
  assumes "assembled w h = Some ga"
  shows "(check_metadata c w ga = None) = metadata_ok c w h"
  using assembled_fields(1-3,12-14) [OF assms]
  by (auto simp: check_metadata_def metadata_ok_def Let_def split: option.splits)

lemma has_entry_lookup:
  "has_entry w h name T_CDF_CHAR = (g_string w h name 0 \<noteq> None)"
  "has_entry w h name T_CDF_DOUBLE = (g_double w h name 0 \<noteq> None)"
  "has_entry w h name T_CDF_TIME_TT2000 = (g_tt2000 w h name 0 \<noteq> None)"
  by (auto simp: has_entry_def g_string_def g_double_def g_tt2000_def
      split: option.splits cdf_value.splits)

lemma required_present_assembled:
  assumes "\<forall>(name, ty) \<in> set required_attrs. has_entry w h name ty"
  shows "\<exists>ga. assembled w h = Some ga"
  using assms unfolding required_attrs_def assembled_def
  by (auto simp: has_entry_lookup)

lemma required_missing_assembled:
  assumes "(name, ty) \<in> set required_attrs" and "g_entry (cdf_of w h) name 0 = None"
  shows "assembled w h = None"
proof -
  have "g_string w h name 0 = None" "g_double w h name 0 = None" "g_tt2000 w h name 0 = None"
    using assms(2) by (simp_all add: g_string_def g_double_def g_tt2000_def)
  then show ?thesis
    using assms(1) unfolding required_attrs_def assembled_def
    by (auto split: option.splits)
qed

lemma format_error_message_short:
  assumes "length msg + length x < 198"
  shows "format_error_message w msg (Some x) CDF_OK = Message (msg @ '': '' @ x)"
  using assms by (simp add: format_error_message_def)

lemma version_tenths:
  "int_of_ieee_double u (double_add (double_mult (round_to_double 1) (Finite 10)) (Finite (1 / 2)))
     = 10"
  "int_of_ieee_double u (double_add (double_mult (round_to_double (11 / 10)) (Finite 10)) (Finite (1 / 2)))
     = 11"
  "int_of_ieee_double u (double_add (double_mult (round_to_double (12 / 10)) (Finite 10)) (Finite (1 / 2)))
     = 12"
  "int_of_ieee_double u (double_add (double_mult (round_to_double (13 / 10)) (Finite 10)) (Finite (1 / 2)))
     = 13"
  "int_of_ieee_double u (double_add (double_mult (round_to_double (14 / 10)) (Finite 10)) (Finite (1 / 2)))
     = 14"
  by code_simp+

text \<open>
  Where the rounding decides: the \<open>double\<close> nearest to 1.3499999999999999999 is the one
  nearest to 1.35, its product with ten rounds to 13.5, and the version is 14; the one
  nearest to 1.0499999999999999999 gives 11; 1.125 gives 11.
\<close>

lemma version_tenths_rounded:
  "int_of_ieee_double u (double_add (double_mult
      (round_to_double (13499999999999999999 / 10000000000000000000)) (Finite 10)) (Finite (1 / 2)))
     = 14"
  "int_of_ieee_double u (double_add (double_mult
      (round_to_double (10499999999999999999 / 10000000000000000000)) (Finite 10)) (Finite (1 / 2)))
     = 11"
  "int_of_ieee_double u (double_add (double_mult (round_to_double (9 / 8)) (Finite 10)) (Finite (1 / 2)))
     = 11"
  by code_simp+

text \<open>For an infinity, a NaN or a version beyond the \<open>int\<close> range the cast is the platform's.\<close>

lemma version_tenths_invalid:
  "int_of_ieee_double u (double_add (double_mult Plus_Infinity (Finite 10)) (Finite (1 / 2)))
     = u Plus_Infinity"
  "int_of_ieee_double u (double_add (double_mult NaN (Finite 10)) (Finite (1 / 2))) = u NaN"
  "int_of_ieee_double (\<lambda>d. - 2147483648)
      (double_add (double_mult (Finite 10000000000) (Finite 10)) (Finite (1 / 2)))
     = - 2147483648"
  by code_simp+

lemma read_global_attrs_checked:
  assumes "handle_ok w h" and "heap_ok w" and "assembled w h = Some ga"
    and "g_string w h ''Title'' 0 = Some t"
    and "g_string w h ''FormatDescription'' 0 = Some d"
    and "g_string w h ''FormatVersion'' 0 = Some v"
  shows "fst (imcdf_read_global_attrs c w h) =
           (if strcasecmp t ''Geomagnetic time series data'' \<noteq> 0
            then Inl (format_error_message w ''Title of data incorrect'' (Some t) CDF_OK)
            else if strcasecmp d ''INTERMAGNET CDF Format'' \<noteq> 0
            then Inl (format_error_message w ''Description of data incorrect'' (Some d) CDF_OK)
            else if int_of_ieee_double (int_of_invalid c)
                      (double_add (double_mult (strtod c v) (Finite 10)) (Finite (1 / 2))) < 11
                    \<or> 13 < int_of_ieee_double (int_of_invalid c)
                      (double_add (double_mult (strtod c v) (Finite 10)) (Finite (1 / 2)))
            then Inl (format_error_message w ''Format incorrect'' (Some v) CDF_OK)
            else Inr ga)"
  using assembled_fields(1-3) [OF assms(3)] assms(4-6)
  by (simp add: read_global_attrs_valid [OF assms(1-3)] check_metadata_def Let_def)

lemma validation_not_read_error:
  assumes "label \<in> {''Title of data incorrect'', ''Description of data incorrect'', ''Format incorrect''}"
    and "length x \<le> 160"
  shows "format_error_message w label (Some x) CDF_OK = Message (label @ '': '' @ x)
         \<and> format_error_message w label (Some x) CDF_OK
             \<noteq> format_error_message w' ''Error reading global attribute'' (Some name) st"
proof -
  have m: "format_error_message w label (Some x) CDF_OK = Message (label @ '': '' @ x)"
    using assms by (intro format_error_message_short) auto
  have "Message (label @ '': '' @ x)
          \<noteq> format_error_message w' ''Error reading global attribute'' (Some name) st"
    using assms(1) format_error_message_shape [of w' "''Error reading global attribute''" "Some name" st]
    by auto
  with m show ?thesis
    by simp
qed

text \<open>
  C1. When every required attribute has been read, \<open>imcdf_read_global_attrs\<close> returns the
  structure exactly when the stored title and format description equal
  \<open>Geomagnetic time series data\<close> and \<open>INTERMAGNET CDF Format\<close> without regard to case and
  the format version lies in 11..13 once \<open>strtod\<close> has converted it and the \<open>double\<close>
  arithmetic has multiplied it by ten, added a half and dropped the fraction; otherwise it
  returns the message of the first condition that fails, formatted without a CDF status.
  This holds for every C implementation, whatever its \<open>strtod\<close> returns. With the other
  two conditions met, the versions 1.1, 1.2 and 1.3 are accepted and 1.0 and 1.4 are
  rejected, where \<open>strtod\<close> returns the \<open>double\<close> nearest to them. For a value of at most
  160 characters the message is the label, a colon and the value, and differs from every
  message for a failed read of an attribute.
\<close>

theorem read_global_attrs_validation:
  assumes "handle_ok w h" and "heap_ok w" and "assembled w h = Some ga"
    and "g_string w h ''Title'' 0 = Some t"
    and "g_string w h ''FormatDescription'' 0 = Some d"
    and "g_string w h ''FormatVersion'' 0 = Some v"
  shows "fst (imcdf_read_global_attrs c w h) =
           (if strcasecmp t ''Geomagnetic time series data'' \<noteq> 0
            then Inl (format_error_message w ''Title of data incorrect'' (Some t) CDF_OK)
            else if strcasecmp d ''INTERMAGNET CDF Format'' \<noteq> 0
            then Inl (format_error_message w ''Description of data incorrect'' (Some d) CDF_OK)
            else if int_of_ieee_double (int_of_invalid c)
                      (double_add (double_mult (strtod c v) (Finite 10)) (Finite (1 / 2))) < 11
                    \<or> 13 < int_of_ieee_double (int_of_invalid c)
                      (double_add (double_mult (strtod c v) (Finite 10)) (Finite (1 / 2)))
            then Inl (format_error_message w ''Format incorrect'' (Some v) CDF_OK)
            else Inr ga)
         \<and> (strcasecmp t ''Geomagnetic time series data'' = 0
              \<and> strcasecmp d ''INTERMAGNET CDF Format'' = 0 \<longrightarrow>
               (v = ''1.1'' \<and> strtod c v = round_to_double (11 / 10)
                  \<or> v = ''1.2'' \<and> strtod c v = round_to_double (12 / 10)
                  \<or> v = ''1.3'' \<and> strtod c v = round_to_double (13 / 10) \<longrightarrow>
                fst (imcdf_read_global_attrs c w h) = Inr ga)
             \<and> (v = ''1.0'' \<and> strtod c v = round_to_double 1
                  \<or> v = ''1.4'' \<and> strtod c v = round_to_double (14 / 10) \<longrightarrow>
                fst (imcdf_read_global_attrs c w h)
                  = Inl (Message (''Format incorrect: '' @ v))))
         \<and> (\<forall>label x w' name st.
               label \<in> {''Title of data incorrect'', ''Description of data incorrect'',
                         ''Format incorrect''} \<and> length x \<le> 160 \<longrightarrow>
               format_error_message w label (Some x) CDF_OK = Message (label @ '': '' @ x)
               \<and> format_error_message w label (Some x) CDF_OK
                   \<noteq> format_error_message w' ''Error reading global attribute'' (Some name) st)"
proof -
  note r = read_global_attrs_checked [OF assms]
  have accepted: "fst (imcdf_read_global_attrs c w h) = Inr ga"
    if "strcasecmp t ''Geomagnetic time series data'' = 0"
      and "strcasecmp d ''INTERMAGNET CDF Format'' = 0"
      and "v = ''1.1'' \<and> strtod c v = round_to_double (11 / 10)
            \<or> v = ''1.2'' \<and> strtod c v = round_to_double (12 / 10)
            \<or> v = ''1.3'' \<and> strtod c v = round_to_double (13 / 10)"
    using that version_tenths(2-4) by (auto simp: r)
  have rejected: "fst (imcdf_read_global_attrs c w h)
                    = Inl (Message (''Format incorrect: '' @ v))"
    if "strcasecmp t ''Geomagnetic time series data'' = 0"
      and "strcasecmp d ''INTERMAGNET CDF Format'' = 0"
      and "v = ''1.0'' \<and> strtod c v = round_to_double 1
            \<or> v = ''1.4'' \<and> strtod c v = round_to_double (14 / 10)"
    using that version_tenths(1,5) by (auto simp: r format_error_message_def)
  show ?thesis
    apply (rule conjI)
     apply (rule r)
    apply (rule conjI)
     apply (rule impI)
     apply (elim conjE)
     apply (rule conjI)
      apply (rule impI)
      apply (rule accepted; assumption)
     apply (rule impI)
     apply (rule rejected; assumption)
    apply (intro allI impI)
    apply (elim conjE)
    apply (rule validation_not_read_error; assumption)
    done
qed

lemma open_world_ok: "handle_ok (open_world f) 0" "heap_ok (open_world f)"
  by (simp_all add: handle_ok_def open_world_def)

theorem read_global_attrs_validation_witness:
  "\<not> isl (fst (imcdf_read_global_attrs sample_platform (open_world (sample_cdf ''1.1'' ''1'' ''Full'')) 0))
   \<and> \<not> isl (fst (imcdf_read_global_attrs sample_platform
          (open_world (with_attr (sample_cdf ''1.3'' ''1'' ''Full'') ''Title''
             (CDF_CHAR ''GEOMAGNETIC Time Series Data''))) 0))
   \<and> fst (imcdf_read_global_attrs sample_platform (open_world (sample_cdf ''1.0'' ''1'' ''Full'')) 0)
       = Inl (Message ''Format incorrect: 1.0'')
   \<and> fst (imcdf_read_global_attrs sample_platform (open_world (sample_cdf ''1.4'' ''1'' ''Full'')) 0)
       = Inl (Message ''Format incorrect: 1.4'')
   \<and> fst (imcdf_read_global_attrs sample_platform
          (open_world (with_attr (sample_cdf ''1.2'' ''1'' ''Full'') ''Title'' (CDF_CHAR ''Weather''))) 0)
       = Inl (Message ''Title of data incorrect: Weather'')
   \<and> fst (imcdf_read_global_attrs sample_platform
          (open_world (with_attr (sample_cdf ''1.2'' ''1'' ''Full'') ''FormatDescription''
             (CDF_CHAR ''netCDF''))) 0)
       = Inl (Message ''Description of data incorrect: netCDF'')
   \<and> Message ''Format incorrect: 1.4''
       \<noteq> format_error_message (open_world empty_cdf) ''Error reading global attribute''
           (Some ''FormatVersion'') NO_SUCH_ATTR"
proof -
  let ?T = "''Geomagnetic time series data''"
  let ?D = "''INTERMAGNET CDF Format''"
  let ?w11 = "open_world (sample_cdf ''1.1'' ''1'' ''Full'')"
  let ?w13 = "open_world (with_attr (sample_cdf ''1.3'' ''1'' ''Full'') ''Title''
                (CDF_CHAR ''GEOMAGNETIC Time Series Data''))"
  let ?w10 = "open_world (sample_cdf ''1.0'' ''1'' ''Full'')"
  let ?w14 = "open_world (sample_cdf ''1.4'' ''1'' ''Full'')"
  let ?wt = "open_world (with_attr (sample_cdf ''1.2'' ''1'' ''Full'') ''Title'' (CDF_CHAR ''Weather''))"
  let ?wd = "open_world (with_attr (sample_cdf ''1.2'' ''1'' ''Full'') ''FormatDescription''
               (CDF_CHAR ''netCDF''))"
  have a: "assembled ?w11 0 = Some (the (assembled ?w11 0))"
    "assembled ?w13 0 = Some (the (assembled ?w13 0))"
    "assembled ?w10 0 = Some (the (assembled ?w10 0))"
    "assembled ?w14 0 = Some (the (assembled ?w14 0))"
    "assembled ?wt 0 = Some (the (assembled ?wt 0))"
    "assembled ?wd 0 = Some (the (assembled ?wd 0))"
    by code_simp+
  have g11: "g_string ?w11 0 ''Title'' 0 = Some ?T" "g_string ?w11 0 ''FormatDescription'' 0 = Some ?D"
    "g_string ?w11 0 ''FormatVersion'' 0 = Some ''1.1''"
    by code_simp+
  have g13: "g_string ?w13 0 ''Title'' 0 = Some ''GEOMAGNETIC Time Series Data''"
    "g_string ?w13 0 ''FormatDescription'' 0 = Some ?D"
    "g_string ?w13 0 ''FormatVersion'' 0 = Some ''1.3''"
    by code_simp+
  have g10: "g_string ?w10 0 ''Title'' 0 = Some ?T" "g_string ?w10 0 ''FormatDescription'' 0 = Some ?D"
    "g_string ?w10 0 ''FormatVersion'' 0 = Some ''1.0''"
    by code_simp+
  have g14: "g_string ?w14 0 ''Title'' 0 = Some ?T" "g_string ?w14 0 ''FormatDescription'' 0 = Some ?D"
    "g_string ?w14 0 ''FormatVersion'' 0 = Some ''1.4''"
    by code_simp+
  have gt: "g_string ?wt 0 ''Title'' 0 = Some ''Weather''" "g_string ?wt 0 ''FormatDescription'' 0 = Some ?D"
    "g_string ?wt 0 ''FormatVersion'' 0 = Some ''1.2''"
    by code_simp+
  have gd: "g_string ?wd 0 ''Title'' 0 = Some ?T" "g_string ?wd 0 ''FormatDescription'' 0 = Some ''netCDF''"
    "g_string ?wd 0 ''FormatVersion'' 0 = Some ''1.2''"
    by code_simp+
  have st: "strtod sample_platform ''1.0'' = round_to_double 1"
    "strtod sample_platform ''1.1'' = round_to_double (11 / 10)"
    "strtod sample_platform ''1.3'' = round_to_double (13 / 10)"
    "strtod sample_platform ''1.4'' = round_to_double (14 / 10)"
    by (simp_all add: sample_platform_def)
  have c: "strcasecmp ?T ?T = 0" "strcasecmp ?D ?D = 0"
    "strcasecmp ''GEOMAGNETIC Time Series Data'' ?T = 0"
    "strcasecmp ''Weather'' ?T \<noteq> 0" "strcasecmp ''netCDF'' ?D \<noteq> 0"
    by code_simp+
  have r11: "fst (imcdf_read_global_attrs sample_platform ?w11 0) = Inr (the (assembled ?w11 0))"
    using read_global_attrs_validation [where c = sample_platform,
        OF open_world_ok a(1) g11, THEN conjunct2, THEN conjunct1] c st
    by simp
  have r13: "fst (imcdf_read_global_attrs sample_platform ?w13 0) = Inr (the (assembled ?w13 0))"
    using read_global_attrs_validation [where c = sample_platform,
        OF open_world_ok a(2) g13, THEN conjunct2, THEN conjunct1] c st
    by simp
  have r10: "fst (imcdf_read_global_attrs sample_platform ?w10 0) = Inl (Message ''Format incorrect: 1.0'')"
    using read_global_attrs_validation [where c = sample_platform,
        OF open_world_ok a(3) g10, THEN conjunct2, THEN conjunct1] c st
    by simp
  have r14: "fst (imcdf_read_global_attrs sample_platform ?w14 0) = Inl (Message ''Format incorrect: 1.4'')"
    using read_global_attrs_validation [where c = sample_platform,
        OF open_world_ok a(4) g14, THEN conjunct2, THEN conjunct1] c st
    by simp
  have m: "format_error_message ?wt ''Title of data incorrect'' (Some ''Weather'') CDF_OK
             = Message ''Title of data incorrect: Weather''"
    "format_error_message ?wd ''Description of data incorrect'' (Some ''netCDF'') CDF_OK
             = Message ''Description of data incorrect: netCDF''"
    by (simp_all add: format_error_message_def)
  have rt: "fst (imcdf_read_global_attrs sample_platform ?wt 0) = Inl (Message ''Title of data incorrect: Weather'')"
    using read_global_attrs_validation [where c = sample_platform,
        OF open_world_ok a(5) gt, THEN conjunct1] c m
    by simp
  have rd: "fst (imcdf_read_global_attrs sample_platform ?wd 0) = Inl (Message ''Description of data incorrect: netCDF'')"
    using read_global_attrs_validation [where c = sample_platform,
        OF open_world_ok a(6) gd, THEN conjunct1] c m
    by simp
  have ne: "Message ''Format incorrect: 1.4''
       \<noteq> format_error_message (open_world empty_cdf) ''Error reading global attribute''
           (Some ''FormatVersion'') NO_SUCH_ATTR"
    using read_global_attrs_validation [where c = sample_platform,
        OF open_world_ok a(4) g14, THEN conjunct2, THEN conjunct2,
        rule_format, of "''Format incorrect''" "''1.4''" "open_world empty_cdf" "''FormatVersion''"
        NO_SUCH_ATTR]
    by auto
  show ?thesis
    using r11 r13 r10 r14 rt rd ne by simp
qed

lemma read_global_attrs_reads:
  assumes "handle_ok w h" and "heap_ok w"
    and "\<forall>(name, ty) \<in> set required_attrs. has_entry w h name ty"
    and "metadata_ok c w h"
  shows "\<exists>ga. assembled w h = Some ga \<and> fst (imcdf_read_global_attrs c w h) = Inr ga"
proof -
  from required_present_assembled [OF assms(3)] obtain ga where a: "assembled w h = Some ga"
    by blast
  then have "check_metadata c w ga = None"
    using check_metadata_ok [OF a] assms(4) by simp
  then have "fst (imcdf_read_global_attrs c w h) = Inr ga"
    using read_global_attrs_valid [OF assms(1,2) a] by simp
  with a show ?thesis
    by blast
qed

lemma parse_defaults:
  "strcasecmp pl ''1'' \<noteq> 0 \<and> strcasecmp pl ''2'' \<noteq> 0 \<and> strcasecmp pl ''3'' \<noteq> 0
     \<and> strcasecmp pl ''4'' \<noteq> 0 \<Longrightarrow> imcdf_parse_pub_level_string pl = IMCDF_PUBLEVEL_1"
  "strcasecmp sl ''full'' \<noteq> 0 \<and> strcasecmp sl ''partial'' \<noteq> 0 \<and> strcasecmp sl ''none'' \<noteq> 0
     \<Longrightarrow> imcdf_parse_standard_level_string sl = IMCDF_STANDLEVEL_NONE"
  by (simp_all add: imcdf_parse_pub_level_string_def imcdf_parse_standard_level_string_def)

text \<open>
  C9 (as amended). When the required attributes are present and the title, the format
  description and the format version pass their checks (in any C implementation),
  \<open>imcdf_read_global_attrs\<close> succeeds whatever the stored PublicationLevel and StandardLevel strings are: the levels
  it returns are those of \<open>imcdf_parse_pub_level_string\<close> and
  \<open>imcdf_parse_standard_level_string\<close>, so a PublicationLevel other than 1, 2, 3 and 4 is
  read as level 1 and a StandardLevel other than full, partial and none (in any case) as
  None, and no error is returned.
\<close>

theorem unrecognised_levels_default:
  assumes "handle_ok w h" and "heap_ok w"
    and "\<forall>(name, ty) \<in> set required_attrs. has_entry w h name ty"
    and "metadata_ok c w h"
  shows "\<exists>ga pl sl. fst (imcdf_read_global_attrs c w h) = Inr ga
           \<and> g_string w h ''PublicationLevel'' 0 = Some pl
           \<and> g_string w h ''StandardLevel'' 0 = Some sl
           \<and> pub_level ga = imcdf_parse_pub_level_string pl
           \<and> standard_level ga = imcdf_parse_standard_level_string sl
           \<and> (strcasecmp pl ''1'' \<noteq> 0 \<and> strcasecmp pl ''2'' \<noteq> 0 \<and> strcasecmp pl ''3'' \<noteq> 0
                \<and> strcasecmp pl ''4'' \<noteq> 0 \<longrightarrow> pub_level ga = IMCDF_PUBLEVEL_1)
           \<and> (strcasecmp sl ''full'' \<noteq> 0 \<and> strcasecmp sl ''partial'' \<noteq> 0
                \<and> strcasecmp sl ''none'' \<noteq> 0 \<longrightarrow> standard_level ga = IMCDF_STANDLEVEL_NONE)"
proof -
  from read_global_attrs_reads [OF assms] obtain ga where
    a: "assembled w h = Some ga" and r: "fst (imcdf_read_global_attrs c w h) = Inr ga"
    by blast
  from assembled_fields(4,5) [OF a] obtain pl sl where
    pl: "g_string w h ''PublicationLevel'' 0 = Some pl"
      "pub_level ga = imcdf_parse_pub_level_string pl"
    and sl: "g_string w h ''StandardLevel'' 0 = Some sl"
      "standard_level ga = imcdf_parse_standard_level_string sl"
    by blast
  show ?thesis
  proof (intro exI conjI)
    show "fst (imcdf_read_global_attrs c w h) = Inr ga"
      by (fact r)
    show "g_string w h ''PublicationLevel'' 0 = Some pl"
      by (fact pl(1))
    show "g_string w h ''StandardLevel'' 0 = Some sl"
      by (fact sl(1))
    show "pub_level ga = imcdf_parse_pub_level_string pl"
      by (fact pl(2))
    show "standard_level ga = imcdf_parse_standard_level_string sl"
      by (fact sl(2))
    show "strcasecmp pl ''1'' \<noteq> 0 \<and> strcasecmp pl ''2'' \<noteq> 0 \<and> strcasecmp pl ''3'' \<noteq> 0
            \<and> strcasecmp pl ''4'' \<noteq> 0 \<longrightarrow> pub_level ga = IMCDF_PUBLEVEL_1"
      using parse_defaults(1) [of pl] pl(2) by simp
    show "strcasecmp sl ''full'' \<noteq> 0 \<and> strcasecmp sl ''partial'' \<noteq> 0
            \<and> strcasecmp sl ''none'' \<noteq> 0 \<longrightarrow> standard_level ga = IMCDF_STANDLEVEL_NONE"
      using parse_defaults(2) [of sl] sl(2) by simp
  qed
qed

lemma sample_cdf_complete:
  "\<forall>(name, ty) \<in> set required_attrs.
      has_entry (open_world (sample_cdf ''1.2'' ''five'' ''Complete'')) 0 name ty"
  "\<forall>(name, ty) \<in> set required_attrs.
      has_entry (open_world (sample_cdf ''1.2'' ''1'' ''Full'')) 0 name ty"
  by code_simp+

lemma sample_cdf_valid:
  "metadata_ok sample_platform (open_world (sample_cdf ''1.2'' ''five'' ''Complete'')) 0"
  "metadata_ok sample_platform (open_world (sample_cdf ''1.2'' ''1'' ''Full'')) 0"
  by code_simp+

theorem unrecognised_levels_default_witness:
  "\<not> isl (fst (imcdf_read_global_attrs sample_platform (open_world (sample_cdf ''1.2'' ''five'' ''Complete'')) 0))
   \<and> pub_level (projr (fst (imcdf_read_global_attrs sample_platform
        (open_world (sample_cdf ''1.2'' ''five'' ''Complete'')) 0))) = IMCDF_PUBLEVEL_1
   \<and> standard_level (projr (fst (imcdf_read_global_attrs sample_platform
        (open_world (sample_cdf ''1.2'' ''five'' ''Complete'')) 0))) = IMCDF_STANDLEVEL_NONE"
proof -
  let ?w = "open_world (sample_cdf ''1.2'' ''five'' ''Complete'')"
  have g: "g_string ?w 0 ''PublicationLevel'' 0 = Some ''five''"
    "g_string ?w 0 ''StandardLevel'' 0 = Some ''Complete''"
    by code_simp+
  have c: "strcasecmp ''five'' ''1'' \<noteq> 0" "strcasecmp ''five'' ''2'' \<noteq> 0"
    "strcasecmp ''five'' ''3'' \<noteq> 0" "strcasecmp ''five'' ''4'' \<noteq> 0"
    "strcasecmp ''Complete'' ''full'' \<noteq> 0" "strcasecmp ''Complete'' ''partial'' \<noteq> 0"
    "strcasecmp ''Complete'' ''none'' \<noteq> 0"
    by code_simp+
  from unrecognised_levels_default [OF open_world_ok sample_cdf_complete(1) sample_cdf_valid(1)]
  obtain ga pl sl where r: "fst (imcdf_read_global_attrs sample_platform ?w 0) = Inr ga"
    and s: "g_string ?w 0 ''PublicationLevel'' 0 = Some pl" "g_string ?w 0 ''StandardLevel'' 0 = Some sl"
    and d: "strcasecmp pl ''1'' \<noteq> 0 \<and> strcasecmp pl ''2'' \<noteq> 0 \<and> strcasecmp pl ''3'' \<noteq> 0
              \<and> strcasecmp pl ''4'' \<noteq> 0 \<longrightarrow> pub_level ga = IMCDF_PUBLEVEL_1"
      "strcasecmp sl ''full'' \<noteq> 0 \<and> strcasecmp sl ''partial'' \<noteq> 0
              \<and> strcasecmp sl ''none'' \<noteq> 0 \<longrightarrow> standard_level ga = IMCDF_STANDLEVEL_NONE"
    by blast
  have "pl = ''five''" "sl = ''Complete''"
    using g s by simp_all
  with d c have "pub_level ga = IMCDF_PUBLEVEL_1" "standard_level ga = IMCDF_STANDLEVEL_NONE"
    by simp_all
  with r show ?thesis
    by simp
qed

theorem unrecognised_level_counterexample:
  "g_string (open_world (sample_cdf ''1.1'' ''9'' ''Full'')) 0 ''PublicationLevel'' 0 = Some ''9''
   \<and> \<not> isl (fst (imcdf_read_global_attrs sample_platform (open_world (sample_cdf ''1.1'' ''9'' ''Full'')) 0))
   \<and> pub_level (projr (fst (imcdf_read_global_attrs sample_platform
        (open_world (sample_cdf ''1.1'' ''9'' ''Full'')) 0))) = IMCDF_PUBLEVEL_1
   \<and> g_string (open_world (sample_cdf ''1.1'' ''1'' ''Draft'')) 0 ''StandardLevel'' 0 = Some ''Draft''
   \<and> \<not> isl (fst (imcdf_read_global_attrs sample_platform (open_world (sample_cdf ''1.1'' ''1'' ''Draft'')) 0))
   \<and> standard_level (projr (fst (imcdf_read_global_attrs sample_platform
        (open_world (sample_cdf ''1.1'' ''1'' ''Draft'')) 0))) = IMCDF_STANDLEVEL_NONE"
  by code_simp

text \<open>
  C6. With an open CDF, \<open>imcdf_read_global_attrs\<close> returns an error when entry 0 of a
  required attribute is not found. When the required attributes are present with their
  types and the title, the format description and the format version pass their checks
  (in any C implementation), it returns a structure, and in it the field of every optional
  attribute (VectorSensOrient, StandardName, StandardVersion, PartialStandDesc, TermsOfUse,
  UniqueIdentifier) whose entry 0 is not found is empty.
\<close>

theorem optional_attrs_absorbed:
  assumes "handle_ok w h" and "heap_ok w"
  shows "(\<forall>(name, ty) \<in> set required_attrs.
            g_entry (cdf_of w h) name 0 = None \<longrightarrow> isl (fst (imcdf_read_global_attrs c w h)))
         \<and> ((\<forall>(name, ty) \<in> set required_attrs. has_entry w h name ty) \<and> metadata_ok c w h \<longrightarrow>
              (\<exists>ga. fst (imcdf_read_global_attrs c w h) = Inr ga
                 \<and> (\<forall>(name, field) \<in> set optional_attrs.
                       g_entry (cdf_of w h) name 0 = None \<longrightarrow> field ga = None)))"
proof -
  have required: "isl (fst (imcdf_read_global_attrs c w h))"
    if "(name, ty) \<in> set required_attrs" and "g_entry (cdf_of w h) name 0 = None" for name ty
    using read_global_attrs_fails [OF assms required_missing_assembled [OF that]] .
  have optional: "\<exists>ga. fst (imcdf_read_global_attrs c w h) = Inr ga
                 \<and> (\<forall>(name, field) \<in> set optional_attrs.
                       g_entry (cdf_of w h) name 0 = None \<longrightarrow> field ga = None)"
    if "\<forall>(name, ty) \<in> set required_attrs. has_entry w h name ty" and "metadata_ok c w h"
  proof -
    from read_global_attrs_reads [OF assms that] obtain ga where
      a: "assembled w h = Some ga" and r: "fst (imcdf_read_global_attrs c w h) = Inr ga"
      by blast
    have "field ga = None"
      if "(name, field) \<in> set optional_attrs" and "g_entry (cdf_of w h) name 0 = None" for name field
    proof -
      have "g_string w h name 0 = None"
        using that(2) by (simp add: g_string_def)
      then show ?thesis
        using that(1) assembled_fields(6-11) [OF a] by (auto simp: optional_attrs_def)
    qed
    with r show ?thesis
      by blast
  qed
  show ?thesis
    using required optional by blast
qed

theorem optional_attrs_absorbed_witness:
  "g_entry (cdf_of (open_world (sample_cdf ''1.2'' ''1'' ''Full'')) 0) ''VectorSensOrient'' 0 = None
   \<and> g_entry (cdf_of (open_world (sample_cdf ''1.2'' ''1'' ''Full'')) 0) ''StandardName'' 0 = None
   \<and> \<not> isl (fst (imcdf_read_global_attrs sample_platform (open_world (sample_cdf ''1.2'' ''1'' ''Full'')) 0))
   \<and> vector_sens_orient (projr (fst (imcdf_read_global_attrs sample_platform
        (open_world (sample_cdf ''1.2'' ''1'' ''Full'')) 0))) = None
   \<and> standard_name (projr (fst (imcdf_read_global_attrs sample_platform
        (open_world (sample_cdf ''1.2'' ''1'' ''Full'')) 0))) = None
   \<and> g_entry (cdf_of (open_world (without_attr (sample_cdf ''1.2'' ''1'' ''Full'') ''IagaCode'')) 0)
        ''IagaCode'' 0 = None
   \<and> isl (fst (imcdf_read_global_attrs sample_platform
        (open_world (without_attr (sample_cdf ''1.2'' ''1'' ''Full'') ''IagaCode'')) 0))
   \<and> isl (fst (imcdf_read_global_attrs sample_platform
        (open_world (without_attr (sample_cdf ''1.2'' ''1'' ''Full'') ''Source'')) 0))"
proof -
  let ?w = "open_world (sample_cdf ''1.2'' ''1'' ''Full'')"
  let ?wi = "open_world (without_attr (sample_cdf ''1.2'' ''1'' ''Full'') ''IagaCode'')"
  let ?ws = "open_world (without_attr (sample_cdf ''1.2'' ''1'' ''Full'') ''Source'')"
  have n: "g_entry (cdf_of ?w 0) ''VectorSensOrient'' 0 = None"
    "g_entry (cdf_of ?w 0) ''StandardName'' 0 = None"
    "g_entry (cdf_of ?wi 0) ''IagaCode'' 0 = None"
    "g_entry (cdf_of ?ws 0) ''Source'' 0 = None"
    by code_simp+
  have m: "(''IagaCode'', T_CDF_CHAR) \<in> set required_attrs"
    "(''Source'', T_CDF_CHAR) \<in> set required_attrs"
    "(''VectorSensOrient'', vector_sens_orient) \<in> set optional_attrs"
    "(''StandardName'', standard_name) \<in> set optional_attrs"
    by (simp_all add: required_attrs_def optional_attrs_def)
  have i: "isl (fst (imcdf_read_global_attrs sample_platform ?wi 0))"
    using optional_attrs_absorbed [where c = sample_platform and w = ?wi and h = 0,
        OF open_world_ok, THEN conjunct1] m(1) n(3)
    by blast
  have s: "isl (fst (imcdf_read_global_attrs sample_platform ?ws 0))"
    using optional_attrs_absorbed [where c = sample_platform and w = ?ws and h = 0,
        OF open_world_ok, THEN conjunct1] m(2) n(4)
    by blast
  from optional_attrs_absorbed [where c = sample_platform and w = ?w and h = 0,
      OF open_world_ok, THEN conjunct2] sample_cdf_complete(2) sample_cdf_valid(2)
  obtain ga where r: "fst (imcdf_read_global_attrs sample_platform ?w 0) = Inr ga"
    and o: "\<forall>(name, field) \<in> set optional_attrs.
              g_entry (cdf_of ?w 0) name 0 = None \<longrightarrow> field ga = None"
    by blast
  have "vector_sens_orient ga = None" "standard_name ga = None"
    using o m(3,4) n(1,2) by blast+
  with r n i s show ?thesis
    by simp
qed

end
